theory Spec2Isabelle
  imports Main
begin

section \<open>JavaScript values and string operations used by the middleware\<close>

text \<open>
  A value of type \<open>string | undefined\<close> (or \<open>string | null\<close>) is a \<open>string option\<close>.
  \<open>truthy\<close> is JavaScript's boolean coercion on such a value: \<open>undefined\<close>, \<open>null\<close> and
  the empty string are falsy. \<open>js_or a b\<close> is \<open>a || b\<close>.
\<close>

fun truthy :: "string option \<Rightarrow> bool" where
  "truthy None = False"
| "truthy (Some s) = (s \<noteq> [])"

definition js_or :: "string option \<Rightarrow> string option \<Rightarrow> string option" where
  "js_or a b = (if truthy a then a else b)"

text \<open>\<open>v || ""\<close> for a string \<open>v\<close> that may be \<open>null\<close>.\<close>

definition or_empty :: "string option \<Rightarrow> string" where
  "or_empty v = (case v of None \<Rightarrow> [] | Some s \<Rightarrow> s)"

text \<open>\<open>s.startsWith(p)\<close>, \<open>s.includes(p)\<close>, \<open>s.replace(p, r)\<close> with a string pattern (the
  first occurrence only) and \<open>s.split(" ")\<close>.\<close>

definition startsWith :: "string \<Rightarrow> string \<Rightarrow> bool" where
  "startsWith s p = (take (length p) s = p)"

fun includes_str :: "string \<Rightarrow> string \<Rightarrow> bool" where
  "includes_str [] p = (p = [])"
| "includes_str (c # cs) p = (startsWith (c # cs) p \<or> includes_str cs p)"

fun replace_first :: "string \<Rightarrow> string \<Rightarrow> string \<Rightarrow> string" where
  "replace_first [] p r = (if p = [] then r else [])"
| "replace_first (c # cs) p r =
     (if startsWith (c # cs) p then r @ drop (length p) (c # cs)
      else c # replace_first cs p r)"

fun split_at :: "char \<Rightarrow> string \<Rightarrow> string list" where
  "split_at sep [] = [[]]"
| "split_at sep (c # cs) =
     (if c = sep then [] # split_at sep cs
      else (case split_at sep cs of
              w # ws \<Rightarrow> (c # w) # ws
            | [] \<Rightarrow> [[c]]))"

text \<open>\<open>n.toString()\<close> on an integral number: decimal digits, with a sign.\<close>

fun digits :: "nat \<Rightarrow> string" where
  "digits n =
     (if n < 10 then [char_of (48 + n)]
      else digits (n div 10) @ [char_of (48 + n mod 10)])"

declare digits.simps [simp del]

definition toString :: "int \<Rightarrow> string" where
  "toString i = (if i < 0 then CHR ''-'' # digits (nat (- i)) else digits (nat i))"


section \<open>Data of the middleware\<close>

type_synonym Scope = string
type_synonym headers = "(string \<times> string) list"

text \<open>The incoming request: the \<open>Authorization\<close> header as \<open>req.headers.get\<close> returns it,
  the search parameters as \<open>getSearchParams(req.url)\<close> returns them, and the path name of
  \<open>new URL(req.url || "", API_DOMAIN)\<close>. The route parameters \<open>params\<close> are the second
  argument of the wrapped function (an absent \<open>params\<close> is the empty map).\<close>

record request =
  authorization :: "string option"
  searchParams :: "string \<rightharpoonup> string"
  pathname :: string

datatype ErrorCode =
  bad_request | not_found | unauthorized | rate_limit_exceeded | forbidden
  | invite_expired | invite_pending

record DubApiError =
  code :: ErrorCode
  message :: string

text \<open>What a \<open>try\<close> block of the two files can catch: a \<open>DubApiError\<close> raised by the
  middleware itself, whatever \<open>throwIfNoAccess\<close> throws (its code is not part of these
  files, so the thrown value is kept as it is, of type \<open>'x\<close>), a \<open>TypeError\<close> of the
  language, and the errors of the database client and of the schema parser inside the
  route handler.\<close>

datatype 'x thrown =
  ApiError DubApiError
  | NoAccess 'x
  | TypeError
  | PrismaValidationError
  | PrismaRecordNotFound
  | ZodError

datatype Role = owner | member

record TokenUser =
  tu_id :: string
  tu_name :: "string option"
  tu_email :: "string option"
  tu_isMachine :: bool

record RestrictedToken =
  rt_scopes :: "string option"
  rt_rateLimit :: int
  rt_projectId :: string
  rt_user :: "TokenUser option"

record PlainToken =
  pt_user :: "TokenUser option"

text \<open>The row that \<open>findUnique\<close> returned: of \<open>restrictedToken\<close> (selected with \<open>scopes\<close>,
  \<open>rateLimit\<close> and \<open>projectId\<close>) or of \<open>token\<close> (selected with \<open>user\<close> only).\<close>

datatype Token = Restricted RestrictedToken | Plain PlainToken

fun token_user :: "Token \<Rightarrow> TokenUser option" where
  "token_user (Restricted t) = rt_user t"
| "token_user (Plain t) = pt_user t"

record User =
  user_id :: string
  user_name :: string
  user_email :: string
  isMachine :: bool

record Session =
  user :: User

text \<open>What \<open>getSession()\<close> returns when it is not \<open>null\<close>: the check \<open>session?.user?.id\<close>
  allows for a session without a user.\<close>

record RawSession =
  raw_user :: "User option"

record WorkspaceUser =
  role :: Role

record WorkspaceDomain =
  wd_id :: string
  slug :: string
  wd_primary :: bool

text \<open>The workspace as \<open>prisma.project.findUnique\<close> returns it, with the fields the two
  files read: \<open>users\<close> are the memberships of the caller only, \<open>domains\<close> all domains of
  the workspace.\<close>

record WorkspaceProps =
  ws_id :: string
  plan :: string
  usage :: int
  usageLimit :: int
  linksUsage :: int
  linksLimit :: int
  users :: "WorkspaceUser list"
  domains :: "WorkspaceDomain list"

record Link =
  link_id :: string
  link_projectId :: "string option"

datatype LinkWhere =
  ById string
  | ByProjectId_externalId string string
  | ByDomain_key string string

record Invite =
  expires :: int

record RatelimitResponse =
  success :: bool
  rl_limit :: int
  reset :: int
  remaining :: int

text \<open>The options of \<open>withWorkspace\<close>. An option left out is \<open>undefined\<close>, which every
  test of the middleware treats as false; \<open>requiredPlan\<close> and \<open>requiredScopes\<close> have the
  defaults of the source.\<close>

record config =
  requiredPlan :: "string list"
  needNotExceededClicks :: bool
  needNotExceededLinks :: bool
  allowAnonymous :: bool
  skipLinkChecks :: bool
  domainChecks :: bool
  betaFeature :: bool
  requiredScopes :: "Scope list"
  skipScopeChecks :: bool

definition default_config :: config where
  "default_config =
     \<lparr> requiredPlan =
         [''free'', ''pro'', ''business'', ''business plus'', ''business max'',
          ''business extra'', ''enterprise''],
       needNotExceededClicks = False,
       needNotExceededLinks = False,
       allowAnonymous = False,
       skipLinkChecks = False,
       domainChecks = False,
       betaFeature = False,
       requiredScopes = [],
       skipScopeChecks = False \<rparr>"

text \<open>The collaborators the middleware calls and whose code is elsewhere: the database
  client's queries, the rate limiter, the session, the clock, and the helpers and
  constants of other modules. They are parameters of the model; a query returns \<open>None\<close>
  for \<open>null\<close>. \<open>throwIfNoAccess\<close> returns \<open>Some x\<close> when it throws \<open>x\<close>.\<close>

record 'x env =
  hashToken :: "string \<Rightarrow> string"
  restrictedToken_findUnique :: "string \<Rightarrow> RestrictedToken option"
  token_findUnique :: "string \<Rightarrow> PlainToken option"
  ratelimit :: "int \<Rightarrow> string \<Rightarrow> RatelimitResponse"
  getSession :: "RawSession option"
  project_findUnique :: "string option \<Rightarrow> string option \<Rightarrow> string \<Rightarrow> WorkspaceProps option"
  link_findUnique :: "LinkWhere \<Rightarrow> Link option"
  projectInvite_findUnique :: "string \<Rightarrow> string \<Rightarrow> Invite option"
  now :: int
  isBetaTester :: "string \<Rightarrow> bool"
  isDubDomain :: "string \<Rightarrow> bool"
  DUB_WORKSPACE_ID :: string
  roleScopesMapping :: "Role \<Rightarrow> Scope list"
  throwIfNoAccess :: "Scope list \<Rightarrow> Scope list \<Rightarrow> string \<Rightarrow> 'x option"
  exceededLimitError :: "string \<Rightarrow> int \<Rightarrow> string \<Rightarrow> string"

text \<open>The argument object of the route handler. On the anonymous path only the first four
  fields are passed and the others are \<open>undefined\<close>.\<close>

record handler_args =
  arg_req :: request
  arg_params :: "string \<rightharpoonup> string"
  arg_searchParams :: "string \<rightharpoonup> string"
  arg_headers :: headers
  arg_session :: "Session option"
  arg_workspace :: "WorkspaceProps option"
  arg_domain :: "string option"
  arg_link :: "Link option"
  arg_scopes :: "Scope list option"


section \<open>Effects: the response headers, the calls made, throw and return\<close>

text \<open>The calls to collaborators, in the order they are made.\<close>

datatype event =
  HashToken string
  | RestrictedToken_findUnique string
  | Token_findUnique string
  | Ratelimit int string
  | Token_update_lastUsed bool string
  | GetSession
  | Project_findUnique "string option" "string option" string
  | Link_findUnique LinkWhere
  | ThrowIfNoAccess "Scope list" "Scope list" string
  | IsBetaTester string
  | ProjectInvite_findUnique string string

text \<open>The mutable variable \<open>headers\<close> of the middleware and the calls made so far.\<close>

record mstate =
  headers :: headers
  trace :: "event list"

definition init_state :: mstate where
  "init_state = \<lparr> headers = [], trace = [] \<rparr>"

text \<open>The body of the \<open>try\<close> block is left by a \<open>throw\<close> or by \<open>return await handler(...)\<close>.\<close>

datatype 'x exit = Throw "'x thrown" | Return handler_args

type_synonym ('x, 'a) M = "mstate \<Rightarrow> ('x exit + 'a) \<times> mstate"

definition ok :: "'a \<Rightarrow> ('x, 'a) M" where
  "ok a s = (Inr a, s)"

definition throw :: "'x thrown \<Rightarrow> ('x, 'a) M" where
  "throw e s = (Inl (Throw e), s)"

definition throwApi :: "ErrorCode \<Rightarrow> string \<Rightarrow> ('x, 'a) M" where
  "throwApi c m = throw (ApiError \<lparr> code = c, message = m \<rparr>)"

definition return_handler :: "handler_args \<Rightarrow> ('x, 'a) M" where
  "return_handler a s = (Inl (Return a), s)"

definition andThen :: "('x, 'a) M \<Rightarrow> ('a \<Rightarrow> ('x, 'b) M) \<Rightarrow> ('x, 'b) M" where
  "andThen m f s = (case m s of (Inl e, s') \<Rightarrow> (Inl e, s') | (Inr a, s') \<Rightarrow> f a s')"

definition call :: "event \<Rightarrow> 'a \<Rightarrow> ('x, 'a) M" where
  "call ev v s = (Inr v, s\<lparr> trace := trace s @ [ev] \<rparr>)"

definition set_headers :: "headers \<Rightarrow> ('x, unit) M" where
  "set_headers h s = (Inr (), s\<lparr> headers := h \<rparr>)"

definition get_headers :: "('x, headers) M" where
  "get_headers s = (Inr (headers s), s)"

text \<open>\<open>v ? f(v) : g\<close> for a value \<open>v\<close> that is a string or \<open>undefined\<close>.\<close>

definition if_truthy :: "string option \<Rightarrow> (string \<Rightarrow> 'a) \<Rightarrow> 'a \<Rightarrow> 'a" where
  "if_truthy v f g = (case v of Some s \<Rightarrow> if s \<noteq> [] then f s else g | None \<Rightarrow> g)"


section \<open>The middleware \<open>withWorkspace\<close>\<close>

subsection \<open>Authentication and resolution of the workspace\<close>

text \<open>The \<open>Authorization\<close> header: \<open>apiKey\<close> stays \<open>undefined\<close> when the header is \<open>null\<close>
  or empty.\<close>

definition getApiKey :: "request \<Rightarrow> ('x, string option) M" where
  "getApiKey req =
     (case authorization req of
        None \<Rightarrow> ok None
      | Some authorizationHeader \<Rightarrow>
          if authorizationHeader = [] then ok None
          else if \<not> includes_str authorizationHeader ''Bearer '' then
            throwApi bad_request
              ''Misconfigured authorization header. Did you forget to add 'Bearer '? Learn more: https://d.to/auth''
          else ok (Some (replace_first authorizationHeader ''Bearer '' [])))"

text \<open>The session built from the user of a token: \<open>name\<close> and \<open>email\<close> default to the
  empty string.\<close>

definition token_session :: "TokenUser \<Rightarrow> Session" where
  "token_session u =
     \<lparr> user =
         \<lparr> user_id = tu_id u,
           user_name = or_empty (tu_name u),
           user_email = or_empty (tu_email u),
           isMachine = tu_isMachine u \<rparr> \<rparr>"

text \<open>The branch \<open>if (apiKey)\<close>: the token of the key, the rate limit, the session built
  from the token's user. It yields the session, the token and the workspace id (the
  token's \<open>projectId\<close> for a restricted token).\<close>

definition apiKeyAuth ::
  "'x env \<Rightarrow> string \<Rightarrow> bool \<Rightarrow> string option \<Rightarrow> ('x, Session \<times> Token option \<times> string option) M"
where
  "apiKeyAuth env k isRestrictedToken workspaceId =
     andThen (call (HashToken k) (hashToken env k)) (\<lambda>hashedKey.
     andThen
       (if isRestrictedToken
        then call (RestrictedToken_findUnique hashedKey)
               (map_option Restricted (restrictedToken_findUnique env hashedKey))
        else call (Token_findUnique hashedKey)
               (map_option Plain (token_findUnique env hashedKey))) (\<lambda>found.
     case found of
       None \<Rightarrow> throwApi unauthorized ''Unauthorized: Invalid API key.''
     | Some t \<Rightarrow>
        (case token_user t of
           None \<Rightarrow> throwApi unauthorized ''Unauthorized: Invalid API key.''
         | Some u \<Rightarrow>
            (let rateLimit =
               (case t of
                  Restricted r \<Rightarrow> if rt_rateLimit r = 0 then 600 else rt_rateLimit r
                | Plain _ \<Rightarrow> 600)
             in
             andThen (call (Ratelimit rateLimit k) (ratelimit env rateLimit k)) (\<lambda>r.
             andThen
               (set_headers
                  [(''Retry-After'', toString (reset r)),
                   (''X-RateLimit-Limit'', toString (rl_limit r)),
                   (''X-RateLimit-Remaining'', toString (remaining r)),
                   (''X-RateLimit-Reset'', toString (reset r))]) (\<lambda>_.
             if \<not> success r then throwApi rate_limit_exceeded ''Too many requests.''
             else
               andThen (call (Token_update_lastUsed isRestrictedToken hashedKey) ()) (\<lambda>_.
               ok (token_session u,
                   Some t,
                   (case t of
                      Restricted r \<Rightarrow> Some (rt_projectId r)
                    | Plain _ \<Rightarrow> workspaceId)))))))))"

text \<open>The branch \<open>else\<close>: the browser session.\<close>

definition sessionAuth :: "'x env \<Rightarrow> ('x, Session) M" where
  "sessionAuth env =
     andThen (call GetSession (getSession env)) (\<lambda>s.
     case s of
       None \<Rightarrow> throwApi unauthorized ''Unauthorized: Login required.''
     | Some raw \<Rightarrow>
        (case raw_user raw of
           None \<Rightarrow> throwApi unauthorized ''Unauthorized: Login required.''
         | Some u \<Rightarrow>
            if user_id u = [] then throwApi unauthorized ''Unauthorized: Login required.''
            else ok \<lparr> user = u \<rparr>))"

text \<open>The second query of the \<open>Promise.all\<close>: the link by id or external id, or by domain
  and key, or no query.\<close>

definition findLink ::
  "'x env \<Rightarrow> string option \<Rightarrow> string option \<Rightarrow> string option \<Rightarrow> string option
     \<Rightarrow> ('x, Link option) M"
where
  "findLink env linkId workspaceId domain key =
     if_truthy linkId
       (\<lambda>l. let wh =
               if_truthy workspaceId
                 (\<lambda>w. if startsWith l ''ext_''
                       then ByProjectId_externalId w (replace_first l ''ext_'' [])
                       else ById l)
                 (ById l)
             in call (Link_findUnique wh) (link_findUnique env wh))
       (if_truthy domain
          (\<lambda>d. if_truthy key
                  (\<lambda>k. call (Link_findUnique (ByDomain_key d k))
                          (link_findUnique env (ByDomain_key d k)))
                  (ok None))
          (ok None))"

text \<open>The constants the middleware reads off the request: \<open>domain\<close>, \<open>linkId\<close>, \<open>idOrSlug\<close>,
  and \<open>isRestrictedToken = apiKey?.startsWith("dub_")\<close> (\<open>undefined\<close> counts as false).\<close>

definition domain_of :: "request \<Rightarrow> (string \<rightharpoonup> string) \<Rightarrow> string option" where
  "domain_of req params = js_or (params ''domain'') (searchParams req ''domain'')"

definition linkId_of :: "request \<Rightarrow> (string \<rightharpoonup> string) \<Rightarrow> string option" where
  "linkId_of req params =
     js_or (js_or (js_or (params ''linkId'') (searchParams req ''linkId''))
              (searchParams req ''externalId'')) None"

definition idOrSlug_of :: "request \<Rightarrow> (string \<rightharpoonup> string) \<Rightarrow> string option" where
  "idOrSlug_of req params =
     js_or (js_or (js_or (params ''idOrSlug'') (searchParams req ''workspaceId''))
              (params ''slug'')) (searchParams req ''projectSlug'')"

definition isRestricted :: "string option \<Rightarrow> bool" where
  "isRestricted apiKey = (case apiKey of Some k \<Rightarrow> startsWith k ''dub_'' | None \<Rightarrow> False)"

definition anonymous_args :: "request \<Rightarrow> (string \<rightharpoonup> string) \<Rightarrow> headers \<Rightarrow> handler_args" where
  "anonymous_args req params h =
     \<lparr> arg_req = req, arg_params = params, arg_searchParams = searchParams req,
       arg_headers = h, arg_session = None, arg_workspace = None, arg_domain = None,
       arg_link = None, arg_scopes = None \<rparr>"

text \<open>If there is no workspace id or slug and it is not a restricted token: the anonymous
  call of the handler, or the request is refused.\<close>

definition idOrSlugCheck ::
  "config \<Rightarrow> request \<Rightarrow> (string \<rightharpoonup> string) \<Rightarrow> string option \<Rightarrow> string option \<Rightarrow> bool
     \<Rightarrow> ('x, unit) M"
where
  "idOrSlugCheck cfg req params apiKey idOrSlug isRestrictedToken =
     (if \<not> truthy idOrSlug \<and> \<not> isRestrictedToken then
        (if allowAnonymous cfg \<and> \<not> truthy apiKey then
           andThen get_headers (\<lambda>h. return_handler (anonymous_args req params h))
         else
           throwApi not_found
             ''Workspace id not found. Did you forget to include a `workspaceId` query parameter? Learn more: https://d.to/id'')
      else ok ())"

text \<open>The API key or the browser session: the session, the token and the workspace id.\<close>

definition authenticate ::
  "'x env \<Rightarrow> string option \<Rightarrow> bool \<Rightarrow> string option
     \<Rightarrow> ('x, Session \<times> Token option \<times> string option) M"
where
  "authenticate env apiKey isRestrictedToken workspaceId =
     if_truthy apiKey
       (\<lambda>k. apiKeyAuth env k isRestrictedToken workspaceId)
       (andThen (sessionAuth env) (\<lambda>s. ok (s, None, workspaceId)))"

text \<open>The local variables of the middleware once the workspace is known to exist with
  the caller among its users.\<close>

record ctx =
  apiKey :: "string option"
  domain :: "string option"
  key :: "string option"
  linkId :: "string option"
  workspaceId :: "string option"
  session :: Session
  token :: "Token option"
  workspace :: WorkspaceProps
  link :: "Link option"
  scopes :: "Scope list"

text \<open>The two queries of the \<open>Promise.all\<close> and the test that the workspace exists with the
  caller among its users. The answer of the database to the workspace query is the
  parameter \<open>project_findUnique\<close>, an optional row. A query that names neither an id nor
  a slug (\<open>workspaceId\<close> and \<open>workspaceSlug\<close> both undefined or empty) is handed to the
  parameter like any other: that the database client refuses such a query with an error of
  its own is not represented.\<close>

definition fetchWorkspace ::
  "'x env \<Rightarrow> string option \<Rightarrow> string option \<Rightarrow> string option \<Rightarrow> string option
     \<Rightarrow> string option \<Rightarrow> Session \<Rightarrow> Token option \<Rightarrow> string option \<Rightarrow> ('x, ctx) M"
where
  "fetchWorkspace env =
     (\<lambda>apiKey domain key linkId workspaceSlug session token workspaceId.
     andThen
       (call (Project_findUnique (js_or workspaceId None) (js_or workspaceSlug None)
                (user_id (user session)))
          (project_findUnique env (js_or workspaceId None) (js_or workspaceSlug None)
             (user_id (user session)))) (\<lambda>found.
     andThen (findLink env linkId workspaceId domain key) (\<lambda>link.
     case found of
       None \<Rightarrow> throwApi not_found ''Workspace not found.''
     | Some w \<Rightarrow>
         if users w = [] then throwApi not_found ''Workspace not found.''
         else
           ok \<lparr> apiKey = apiKey, domain = domain, key = key, linkId = linkId,
                workspaceId = workspaceId, session = session, token = token,
                workspace = w, link = link, scopes = [] \<rparr>)))"

definition resolve :: "'x env \<Rightarrow> config \<Rightarrow> request \<Rightarrow> (string \<rightharpoonup> string) \<Rightarrow> ('x, ctx) M" where
  "resolve env cfg req params =
     andThen (getApiKey req) (\<lambda>apiKey.
     let domain = domain_of req params;
         key = searchParams req ''key'';
         linkId = linkId_of req params;
         isRestrictedToken = isRestricted apiKey;
         idOrSlug = idOrSlug_of req params
     in
     andThen (idOrSlugCheck cfg req params apiKey idOrSlug isRestrictedToken) (\<lambda>_.
     let workspaceId0 =
           if_truthy idOrSlug
             (\<lambda>s. if startsWith s ''ws_'' then Some (replace_first s ''ws_'' []) else None) None;
         workspaceSlug =
           if_truthy idOrSlug (\<lambda>s. if startsWith s ''ws_'' then None else Some s) None
     in
     andThen (authenticate env apiKey isRestrictedToken workspaceId0)
       (\<lambda>(session, token, workspaceId).
     fetchWorkspace env apiKey domain key linkId workspaceSlug session token workspaceId)))"

subsection \<open>The checks on the resolved workspace, in the order of the source\<close>

text \<open>Find scopes based on the token or the user's role. A restricted token was selected
  with its \<open>scopes\<close> column, so \<open>"scopes" in token\<close> holds for it and for no other
  token; a \<open>null\<close> column gives the empty list. Reading \<open>users[0]\<close> of an empty list
  is a \<open>TypeError\<close>.\<close>

definition findScopes :: "'x env \<Rightarrow> ctx \<Rightarrow> ('x, ctx) M" where
  "findScopes env c =
     (case token c of
        Some (Restricted t) \<Rightarrow>
          ok (c\<lparr> scopes := (case rt_scopes t of None \<Rightarrow> [] | Some s \<Rightarrow> split_at CHR '' '' s) \<rparr>)
      | _ \<Rightarrow>
          (case users (workspace c) of
             u # _ \<Rightarrow> ok (c\<lparr> scopes := roleScopesMapping env (role u) \<rparr>)
           | [] \<Rightarrow> throw TypeError))"

text \<open>Check user has permission to make the action.\<close>

definition scopeCheck :: "'x env \<Rightarrow> config \<Rightarrow> ctx \<Rightarrow> ('x, ctx) M" where
  "scopeCheck env cfg c =
     (if \<not> skipScopeChecks cfg then
        andThen
          (call (ThrowIfNoAccess (scopes c) (requiredScopes cfg) (ws_id (workspace c)))
             (throwIfNoAccess env (scopes c) (requiredScopes cfg) (ws_id (workspace c))))
          (\<lambda>r. case r of Some x \<Rightarrow> throw (NoAccess x) | None \<Rightarrow> ok c)
      else ok c)"

text \<open>Beta feature checks.\<close>

definition betaFeatureCheck :: "'x env \<Rightarrow> config \<Rightarrow> ctx \<Rightarrow> ('x, ctx) M" where
  "betaFeatureCheck env cfg c =
     (if betaFeature cfg then
        andThen
          (call (IsBetaTester (ws_id (workspace c))) (isBetaTester env (ws_id (workspace c))))
          (\<lambda>betaTester.
             if \<not> betaTester then throwApi forbidden ''Unauthorized: Beta feature.''
             else ok c)
      else ok c)"

text \<open>The link is fetched again when \<open>linkId\<close> is an external id and no workspace id was
  given.\<close>

definition linkRefetch :: "'x env \<Rightarrow> ctx \<Rightarrow> ('x, ctx) M" where
  "linkRefetch env c =
     if_truthy (linkId c)
       (\<lambda>l. if startsWith l ''ext_'' \<and> link c = None \<and> \<not> truthy (workspaceId c) then
               (let wh = ByProjectId_externalId (ws_id (workspace c)) (replace_first l ''ext_'' [])
                in andThen (call (Link_findUnique wh) (link_findUnique env wh))
                     (\<lambda>l'. ok (c\<lparr> link := l' \<rparr>)))
             else ok c)
       (ok c)"

text \<open>If domain is defined: a dub domain with \<open>domainChecks\<close> needs the dub workspace; a
  custom domain has to belong to the workspace.\<close>

definition domainCheck :: "'x env \<Rightarrow> config \<Rightarrow> ctx \<Rightarrow> ('x, ctx) M" where
  "domainCheck env cfg c =
     if_truthy (domain c)
       (\<lambda>d. if isDubDomain env d then
               (if domainChecks cfg \<and> ws_id (workspace c) \<noteq> DUB_WORKSPACE_ID env then
                  throwApi forbidden ''Domain does not belong to workspace.''
                else ok c)
             else if find (\<lambda>x. slug x = d) (domains (workspace c)) = None then
               throwApi forbidden ''Domain does not belong to workspace.''
             else ok c)
       (ok c)"

text \<open>Workspace exists but user is not part of it.\<close>

definition inviteCheck :: "'x env \<Rightarrow> ctx \<Rightarrow> ('x, ctx) M" where
  "inviteCheck env c =
     (if length (users (workspace c)) = 0 then
        andThen
          (call (ProjectInvite_findUnique (user_email (user (session c))) (ws_id (workspace c)))
             (projectInvite_findUnique env (user_email (user (session c)))
                (ws_id (workspace c))))
          (\<lambda>pendingInvites.
             case pendingInvites of
               None \<Rightarrow> throwApi not_found ''Workspace not found.''
             | Some i \<Rightarrow>
                 if expires i < now env then throwApi invite_expired ''Workspace invite expired.''
                 else throwApi invite_pending ''Workspace invite pending.'')
      else ok c)"

text \<open>Clicks usage overage checks.\<close>

definition clicksCheck :: "'x env \<Rightarrow> config \<Rightarrow> ctx \<Rightarrow> ('x, ctx) M" where
  "clicksCheck env cfg c =
     (if needNotExceededClicks cfg \<and> usage (workspace c) > usageLimit (workspace c) then
        throwApi forbidden
          (exceededLimitError env (plan (workspace c)) (usageLimit (workspace c)) ''clicks'')
      else ok c)"

text \<open>Links usage overage checks.\<close>

definition linksCheck :: "'x env \<Rightarrow> config \<Rightarrow> ctx \<Rightarrow> ('x, ctx) M" where
  "linksCheck env cfg c =
     (if needNotExceededLinks cfg
         \<and> linksUsage (workspace c) > linksLimit (workspace c)
         \<and> (plan (workspace c) = ''free'' \<or> plan (workspace c) = ''pro'') then
        throwApi forbidden
          (exceededLimitError env (plan (workspace c)) (linksLimit (workspace c)) ''links'')
      else ok c)"

text \<open>Plan checks.\<close>

definition planCheck :: "config \<Rightarrow> ctx \<Rightarrow> ('x, ctx) M" where
  "planCheck cfg c =
     (if plan (workspace c) \<notin> set (requiredPlan cfg) then
        throwApi forbidden ''Unauthorized: Need higher plan.''
      else ok c)"

text \<open>Analytics API checks.\<close>

definition analyticsCheck :: "request \<Rightarrow> ctx \<Rightarrow> ('x, ctx) M" where
  "analyticsCheck req c =
     (if plan (workspace c) = ''free'' \<and> truthy (apiKey c)
         \<and> includes_str (pathname req) ''/analytics'' then
        throwApi forbidden ''Analytics API is only available on paid plans.''
      else ok c)"

text \<open>Link checks (if linkId or domain and key are provided): the link has to be owned by
  the workspace.\<close>

definition linkCheck :: "config \<Rightarrow> ctx \<Rightarrow> ('x, ctx) M" where
  "linkCheck cfg c =
     (if (truthy (linkId c)
          \<or> (truthy (domain c) \<and> truthy (key c) \<and> key c \<noteq> Some ''_root''))
         \<and> \<not> skipLinkChecks cfg then
        (case link c of
           None \<Rightarrow> throwApi not_found ''Link not found.''
         | Some l \<Rightarrow>
             if link_projectId l \<noteq> Some (ws_id (workspace c)) then
               throwApi not_found ''Link not found.''
             else ok c)
      else ok c)"

text \<open>A sequence of checks: each one throws or hands the variables on to the next.\<close>

fun run_checks :: "(ctx \<Rightarrow> ('x, ctx) M) list \<Rightarrow> ctx \<Rightarrow> ('x, ctx) M" where
  "run_checks [] c = ok c"
| "run_checks (f # fs) c = andThen (f c) (run_checks fs)"

definition checks_before_scopeCheck :: "'x env \<Rightarrow> (ctx \<Rightarrow> ('x, ctx) M) list" where
  "checks_before_scopeCheck env = [findScopes env]"

definition checks_before_domainCheck :: "'x env \<Rightarrow> config \<Rightarrow> (ctx \<Rightarrow> ('x, ctx) M) list" where
  "checks_before_domainCheck env cfg =
     checks_before_scopeCheck env @ [scopeCheck env cfg, betaFeatureCheck env cfg, linkRefetch env]"

definition checks_before_clicksCheck :: "'x env \<Rightarrow> config \<Rightarrow> (ctx \<Rightarrow> ('x, ctx) M) list" where
  "checks_before_clicksCheck env cfg =
     checks_before_domainCheck env cfg @ [domainCheck env cfg, inviteCheck env]"

definition checks_before_linksCheck :: "'x env \<Rightarrow> config \<Rightarrow> (ctx \<Rightarrow> ('x, ctx) M) list" where
  "checks_before_linksCheck env cfg = checks_before_clicksCheck env cfg @ [clicksCheck env cfg]"

definition checks :: "'x env \<Rightarrow> config \<Rightarrow> request \<Rightarrow> (ctx \<Rightarrow> ('x, ctx) M) list" where
  "checks env cfg req =
     checks_before_linksCheck env cfg
     @ [linksCheck env cfg, planCheck cfg, analyticsCheck req, linkCheck cfg]"

subsection \<open>The wrapped function\<close>

definition handler_call_args ::
  "request \<Rightarrow> (string \<rightharpoonup> string) \<Rightarrow> headers \<Rightarrow> ctx \<Rightarrow> handler_args"
where
  "handler_call_args req params h c =
     \<lparr> arg_req = req, arg_params = params, arg_searchParams = searchParams req,
       arg_headers = h, arg_session = Some (session c), arg_workspace = Some (workspace c),
       arg_domain = domain c, arg_link = link c, arg_scopes = Some (scopes c) \<rparr>"

text \<open>The body of the \<open>try\<close> block. Its value is the argument of the final
  \<open>return await handler(...)\<close>.\<close>

definition try_body ::
  "'x env \<Rightarrow> config \<Rightarrow> request \<Rightarrow> (string \<rightharpoonup> string) \<Rightarrow> ('x, handler_args) M"
where
  "try_body env cfg req params =
     andThen (resolve env cfg req params) (\<lambda>c.
     andThen (run_checks (checks env cfg req) c) (\<lambda>c.
     andThen get_headers (\<lambda>h.
     ok (handler_call_args req params h c))))"

text \<open>What the middleware does with a request: it invokes the route handler on an
  argument object and returns the handler's response, or it returns
  \<open>handleAndReturnErrorResponse(error, headers)\<close>.\<close>

datatype 'x decision = Invoke handler_args | Reject "'x thrown" headers

definition withWorkspace ::
  "'x env \<Rightarrow> config \<Rightarrow> request \<Rightarrow> (string \<rightharpoonup> string) \<Rightarrow> 'x decision \<times> event list"
where
  "withWorkspace env cfg req params =
     (case try_body env cfg req params init_state of
        (Inl (Throw e), s) \<Rightarrow> (Reject e (headers s), trace s)
      | (Inl (Return a), s) \<Rightarrow> (Invoke a, trace s)
      | (Inr a, s) \<Rightarrow> (Invoke a, trace s))"

text \<open>The state of a request in front of a check: the variables and the state when every
  check of \<open>fs\<close> has passed, or the exit taken before.\<close>

definition reaches ::
  "'x env \<Rightarrow> config \<Rightarrow> request \<Rightarrow> (string \<rightharpoonup> string) \<Rightarrow> (ctx \<Rightarrow> ('x, ctx) M) list
     \<Rightarrow> ('x exit + ctx) \<times> mstate"
where
  "reaches env cfg req params fs = andThen (resolve env cfg req params) (run_checks fs) init_state"


section \<open>The endpoint \<open>POST /api/domains/[domain]/primary\<close>\<close>

text \<open>The table \<open>Domain\<close> of the database, by its unique column \<open>slug\<close>, with the columns
  the endpoint reads and writes.\<close>

record DomainRow =
  dr_id :: string
  primary :: bool
  projectId :: "string option"

type_synonym domain_table = "string \<rightharpoonup> DomainRow"

text \<open>\<open>prisma.domain.update({ where: { slug: domain }, data: { primary: true } })\<close>: the
  updated record, or an error when no row has the slug (or when \<open>domain\<close> is \<open>undefined\<close>,
  which leaves the unique filter empty).\<close>

definition prisma_domain_update ::
  "string option \<Rightarrow> domain_table \<Rightarrow> ('x thrown + string \<times> DomainRow) \<times> domain_table"
where
  "prisma_domain_update d db =
     (case d of
        None \<Rightarrow> (Inl PrismaValidationError, db)
      | Some s \<Rightarrow>
         (case db s of
            None \<Rightarrow> (Inl PrismaRecordNotFound, db)
          | Some r \<Rightarrow> (Inr (s, r\<lparr> primary := True \<rparr>), db(s \<mapsto> r\<lparr> primary := True \<rparr>))))"

text \<open>\<open>prisma.domain.updateMany({ where: { projectId, primary: true, slug: { not: domain } },
  data: { primary: false } })\<close>; an \<open>undefined\<close> \<open>domain\<close> leaves the filter on \<open>slug\<close> out.\<close>

definition prisma_domain_updateMany :: "string \<Rightarrow> string option \<Rightarrow> domain_table \<Rightarrow> domain_table" where
  "prisma_domain_updateMany wid d db =
     (\<lambda>s. case db s of
             None \<Rightarrow> None
           | Some r \<Rightarrow>
               if projectId r = Some wid \<and> primary r \<and> Some s \<noteq> d
               then Some (r\<lparr> primary := False \<rparr>) else Some r)"

text \<open>The two updates of the \<open>Promise.all\<close>: both are issued, the first one's record (or
  error) is the result.\<close>

definition primary_updates ::
  "string \<Rightarrow> string option \<Rightarrow> domain_table \<Rightarrow> ('x thrown + string \<times> DomainRow) \<times> domain_table"
where
  "primary_updates wid d db =
     (case prisma_domain_update d db of (r, db') \<Rightarrow> (r, prisma_domain_updateMany wid d db'))"

datatype ('b, 'x) response = Json 'b headers | ErrorResponse "'x thrown" headers

text \<open>The route handler. \<open>parse\<close> is \<open>DomainSchema.parse\<close>, which is defined elsewhere:
  \<open>None\<close> when it throws.\<close>

definition handler ::
  "(string \<times> DomainRow \<Rightarrow> 'b option) \<Rightarrow> handler_args \<Rightarrow> domain_table
     \<Rightarrow> ('x thrown + 'b \<times> headers) \<times> domain_table"
where
  "handler parse a db =
     (case arg_workspace a of
        None \<Rightarrow> (Inl TypeError, db)
      | Some w \<Rightarrow>
         (case primary_updates (ws_id w) (arg_domain a) db of
            (Inl e, db') \<Rightarrow> (Inl e, db')
          | (Inr domainRecord, db') \<Rightarrow>
             (case parse domainRecord of
                None \<Rightarrow> (Inl ZodError, db')
              | Some body \<Rightarrow> (Inr (body, arg_headers a), db'))))"

definition POST_config :: config where
  "POST_config = default_config\<lparr> domainChecks := True, requiredScopes := [''domains.write''] \<rparr>"

text \<open>\<open>POST = withWorkspace(handler, options)\<close>: the handler runs inside the \<open>try\<close> block of
  the middleware, so what it throws becomes an error response with the middleware's
  headers.\<close>

definition POST ::
  "'x env \<Rightarrow> (string \<times> DomainRow \<Rightarrow> 'b option) \<Rightarrow> request \<Rightarrow> (string \<rightharpoonup> string)
     \<Rightarrow> domain_table \<Rightarrow> ('b, 'x) response \<times> domain_table"
where
  "POST env parse req params db =
     (case fst (withWorkspace env POST_config req params) of
        Reject e h \<Rightarrow> (ErrorResponse e h, db)
      | Invoke a \<Rightarrow>
         (case handler parse a db of
            (Inl e, db') \<Rightarrow> (ErrorResponse e (arg_headers a), db')
          | (Inr (body, h), db') \<Rightarrow> (Json body h, db')))"


section \<open>Assertions about the middleware\<close>

text \<open>\<open>holds P m E Q\<close>: from a state with \<open>P\<close>, the computation \<open>m\<close> leaves the block by an
  exit \<open>x\<close> in a state with \<open>E x\<close>, or goes on with a value \<open>a\<close> in a state with
  \<open>Q a\<close>.\<close>

definition holds ::
  "(mstate \<Rightarrow> bool) \<Rightarrow> ('x, 'a) M \<Rightarrow> ('x exit \<Rightarrow> mstate \<Rightarrow> bool) \<Rightarrow> ('a \<Rightarrow> mstate \<Rightarrow> bool)
     \<Rightarrow> bool"
where
  "holds P m E Q =
     (\<forall>s. P s \<longrightarrow> (case m s of (Inl x, s') \<Rightarrow> E x s' | (Inr a, s') \<Rightarrow> Q a s'))"

text \<open>The variables that no check assigns: all but \<open>link\<close> and \<open>scopes\<close>.\<close>

definition fixed ::
  "ctx \<Rightarrow> string option \<times> string option \<times> string option \<times> string option \<times> string option
     \<times> Session \<times> Token option \<times> WorkspaceProps"
where
  "fixed c =
     (apiKey c, domain c, key c, linkId c, workspaceId c, session c, token c, workspace c)"

text \<open>The API key a request supplies: what is left of a non-empty \<open>Authorization\<close>
  header when the first \<open>Bearer \<close> is taken out. The row the key selects: of
  \<open>restrictedToken\<close> for a key that starts with \<open>dub_\<close>, of \<open>token\<close> otherwise, by the hash
  of the key.\<close>

definition apiKey_of :: "request \<Rightarrow> string option" where
  "apiKey_of req =
     (case authorization req of
        None \<Rightarrow> None
      | Some h \<Rightarrow> if h = [] then None else Some (replace_first h ''Bearer '' []))"

definition token_of_key :: "'x env \<Rightarrow> string \<Rightarrow> Token option" where
  "token_of_key env k =
     (if startsWith k ''dub_''
      then map_option Restricted (restrictedToken_findUnique env (hashToken env k))
      else map_option Plain (token_findUnique env (hashToken env k)))"

text \<open>Where the session and the token of an authenticated request come from: with an API
  key, the token is the row of the key, it has a user and the session is built from that
  user; without one, there is no token and the session is the browser session, whose
  user has an id that is not empty.\<close>

definition authenticated :: "'x env \<Rightarrow> string option \<Rightarrow> Session \<Rightarrow> Token option \<Rightarrow> bool" where
  "authenticated env k se t =
     if_truthy k
       (\<lambda>k. t = token_of_key env k
             \<and> (case t of
                  None \<Rightarrow> False
                | Some row \<Rightarrow>
                   (case token_user row of None \<Rightarrow> False | Some u \<Rightarrow> se = token_session u)))
       (t = None \<and> getSession env = Some \<lparr> raw_user = Some (user se) \<rparr>
          \<and> user_id (user se) \<noteq> [])"

text \<open>What is known of the variables of a request once its workspace is resolved.\<close>

definition resolved :: "'x env \<Rightarrow> request \<Rightarrow> (string \<rightharpoonup> string) \<Rightarrow> ctx \<Rightarrow> bool" where
  "resolved env req params c =
     (apiKey c = apiKey_of req \<and> domain c = domain_of req params
      \<and> users (workspace c) \<noteq> []
      \<and> authenticated env (apiKey c) (session c) (token c))"

text \<open>No query for a pending invite was made; the exit is not one of the two invite
  errors.\<close>

definition no_invite_query :: "mstate \<Rightarrow> bool" where
  "no_invite_query s = (\<forall>m w. ProjectInvite_findUnique m w \<notin> set (trace s))"

definition no_invite_error :: "'x exit \<Rightarrow> bool" where
  "no_invite_error x =
     (case x of
        Throw (ApiError e) \<Rightarrow> code e \<noteq> invite_pending \<and> code e \<noteq> invite_expired
      | _ \<Rightarrow> True)"

text \<open>The exits of the middleware: no invite error, no invite query before, and the only
  early return is the anonymous call of the handler.\<close>

definition good_exit :: "request \<Rightarrow> (string \<rightharpoonup> string) \<Rightarrow> 'x exit \<Rightarrow> mstate \<Rightarrow> bool" where
  "good_exit req params x s =
     (no_invite_query s \<and> no_invite_error x
      \<and> (case x of Return a \<Rightarrow> a = anonymous_args req params (headers s) | Throw e \<Rightarrow> True))"


section \<open>A small world for the examples\<close>

text \<open>One workspace \<open>acme\<close> with two domains, an owner with a browser session, and a
  machine user with a restricted token. The workspace is on the \<open>business\<close> plan, its
  clicks usage equals its limit and its links usage is over its limit.\<close>

definition ada :: User where
  "ada = \<lparr> user_id = ''u1'', user_name = ''Ada'', user_email = ''ada@acme.com'', isMachine = False \<rparr>"

definition bot :: TokenUser where
  "bot = \<lparr> tu_id = ''u2'', tu_name = None, tu_email = Some ''bot@acme.com'', tu_isMachine = True \<rparr>"

definition bot_token :: RestrictedToken where
  "bot_token =
     \<lparr> rt_scopes = Some ''links.read links.write'', rt_rateLimit = 60, rt_projectId = ''w1'',
       rt_user = Some bot \<rparr>"

definition acme :: "string \<Rightarrow> WorkspaceProps" where
  "acme userId =
     \<lparr> ws_id = ''w1'', plan = ''business'', usage = 10, usageLimit = 10,
       linksUsage = 30, linksLimit = 25,
       users = (if userId = ''u1'' then [\<lparr> role = owner \<rparr>]
                else if userId = ''u2'' then [\<lparr> role = member \<rparr>] else []),
       domains =
         [\<lparr> wd_id = ''d1'', slug = ''acme.com'', wd_primary = True \<rparr>,
          \<lparr> wd_id = ''d2'', slug = ''acme.link'', wd_primary = False \<rparr>] \<rparr>"

definition env0 :: "unit env" where
  "env0 =
     \<lparr> hashToken = (\<lambda>k. ''#'' @ k),
       restrictedToken_findUnique = (\<lambda>h. if h = ''#dub_bot'' then Some bot_token else None),
       token_findUnique = (\<lambda>h. None),
       ratelimit = (\<lambda>n k. \<lparr> success = True, rl_limit = n, reset = 7, remaining = n - 1 \<rparr>),
       getSession = Some \<lparr> raw_user = Some ada \<rparr>,
       project_findUnique =
         (\<lambda>i s u. if i = Some ''w1'' \<or> s = Some ''acme'' then Some (acme u) else None),
       link_findUnique = (\<lambda>w. None),
       projectInvite_findUnique = (\<lambda>e p. None),
       now = 0,
       isBetaTester = (\<lambda>w. False),
       isDubDomain = (\<lambda>d. d = ''dub.sh''),
       DUB_WORKSPACE_ID = ''w0'',
       roleScopesMapping =
         (\<lambda>r. case r of owner \<Rightarrow> [''domains.write'', ''links.write''] | member \<Rightarrow> [''links.read'']),
       throwIfNoAccess = (\<lambda>have required w. if set required \<subseteq> set have then None else Some ()),
       exceededLimitError = (\<lambda>p l t. ''Exceeded '' @ t) \<rparr>"

text \<open>Requests: to the primary-domain endpoint of \<open>acme.link\<close> with a browser session, and
  the same with the restricted token; without a workspace id; with a domain of somebody
  else.\<close>

definition req_session :: request where
  "req_session =
     \<lparr> authorization = None, searchParams = [''workspaceId'' \<mapsto> ''ws_w1''],
       pathname = ''/api/domains/acme.link/primary'' \<rparr>"

definition req_token :: request where
  "req_token = req_session\<lparr> authorization := Some ''Bearer dub_bot'' \<rparr>"

definition req_bare :: request where
  "req_bare = \<lparr> authorization = None, searchParams = Map.empty, pathname = ''/api/links'' \<rparr>"

definition params_link :: "string \<rightharpoonup> string" where
  "params_link = [''domain'' \<mapsto> ''acme.link'']"

definition params_other :: "string \<rightharpoonup> string" where
  "params_other = [''domain'' \<mapsto> ''other.io'']"

text \<open>The variables of \<open>req_session\<close> on \<open>params_link\<close> once the scopes are found.\<close>

definition ctx_session :: ctx where
  "ctx_session =
     \<lparr> apiKey = None, domain = Some ''acme.link'', key = None, linkId = None,
       workspaceId = Some ''w1'', session = \<lparr> user = ada \<rparr>, token = None,
       workspace = acme ''u1'', link = None, scopes = [''domains.write'', ''links.write''] \<rparr>"

text \<open>The variables of \<open>req_token\<close> on \<open>params_link\<close> once the scopes are found, and the
  headers the rate limiter gave.\<close>

definition ctx_token :: ctx where
  "ctx_token =
     \<lparr> apiKey = Some ''dub_bot'', domain = Some ''acme.link'', key = None, linkId = None,
       workspaceId = Some ''w1'',
       session = \<lparr> user = \<lparr> user_id = ''u2'', user_name = [], user_email = ''bot@acme.com'',
                            isMachine = True \<rparr> \<rparr>,
       token = Some (Restricted bot_token),
       workspace = acme ''u2'', link = None, scopes = [''links.read'', ''links.write''] \<rparr>"

definition headers_token :: headers where
  "headers_token =
     [(''Retry-After'', toString 7), (''X-RateLimit-Limit'', toString 60),
      (''X-RateLimit-Remaining'', toString 59), (''X-RateLimit-Reset'', toString 7)]"

definition trace_token :: "event list" where
  "trace_token =
     [HashToken ''dub_bot'', RestrictedToken_findUnique ''#dub_bot'', Ratelimit 60 ''dub_bot'',
      Token_update_lastUsed True ''#dub_bot'', Project_findUnique (Some ''w1'') None ''u2'']"

definition trace_session :: "event list" where
  "trace_session = [GetSession, Project_findUnique (Some ''w1'') None ''u1'']"

text \<open>The table of domains: two of \<open>acme\<close>, one of another workspace.\<close>

definition db0 :: domain_table where
  "db0 =
     [''acme.com'' \<mapsto> \<lparr> dr_id = ''d1'', primary = True, projectId = Some ''w1'' \<rparr>,
      ''acme.link'' \<mapsto> \<lparr> dr_id = ''d2'', primary = False, projectId = Some ''w1'' \<rparr>,
      ''other.io'' \<mapsto> \<lparr> dr_id = ''d3'', primary = True, projectId = Some ''w2'' \<rparr>]"

definition parse0 :: "string \<times> DomainRow \<Rightarrow> (string \<times> bool) option" where
  "parse0 rec = Some (fst rec, primary (snd rec))"

text \<open>Routes that need the clicks or the links usage not to be exceeded, and a route that
  allows anonymous requests.\<close>

definition cfg_clicks :: config where
  "cfg_clicks = default_config\<lparr> needNotExceededClicks := True \<rparr>"

definition cfg_links :: config where
  "cfg_links = default_config\<lparr> needNotExceededLinks := True \<rparr>"

definition cfg_anonymous :: config where
  "cfg_anonymous = default_config\<lparr> allowAnonymous := True \<rparr>"

text \<open>The same world with the clicks usage one over the limit, and with the workspace on
  the \<open>free\<close> plan.\<close>

definition env_over :: "unit env" where
  "env_over = env0\<lparr> project_findUnique := (\<lambda>i s u. Some ((acme u)\<lparr> usage := 11 \<rparr>)) \<rparr>"

definition env_free :: "unit env" where
  "env_free = env0\<lparr> project_findUnique := (\<lambda>i s u. Some ((acme u)\<lparr> plan := ''free'' \<rparr>)) \<rparr>"

text \<open>The state of \<open>req_session\<close> after the scope check of a route without required
  scopes.\<close>

definition st_session :: mstate where
  "st_session =
     \<lparr> headers = [],
       trace = trace_session @ [ThrowIfNoAccess [''domains.write'', ''links.write''] [] ''w1''] \<rparr>"


text \<open>A request for a dub domain, a world where \<open>acme\<close> is the dub workspace, and the
  state of \<open>req_session\<close> after the scope check of the primary-domain endpoint.\<close>

definition params_dub :: "string \<rightharpoonup> string" where
  "params_dub = [''domain'' \<mapsto> ''dub.sh'']"

definition env_dub :: "unit env" where
  "env_dub = env0\<lparr> DUB_WORKSPACE_ID := ''w1'' \<rparr>"

definition st_post :: mstate where
  "st_post =
     \<lparr> headers = [],
       trace = trace_session
         @ [ThrowIfNoAccess [''domains.write'', ''links.write''] [''domains.write''] ''w1''] \<rparr>"


text \<open>Requests with an \<open>Authorization\<close> header of another scheme, and with an empty
  one.\<close>

definition req_basic :: request where
  "req_basic = req_session\<lparr> authorization := Some ''Basic YWRhOnNlY3JldA=='' \<rparr>"

definition req_empty_header :: request where
  "req_empty_header = req_session\<lparr> authorization := Some [] \<rparr>"


text \<open>A world where the browser session belongs to somebody who is not a member of \<open>acme\<close>
  and has a pending invite.\<close>

definition env_stranger :: "unit env" where
  "env_stranger =
     env0\<lparr> getSession := Some \<lparr> raw_user = Some (ada\<lparr> user_id := ''u9'' \<rparr>) \<rparr>,
           projectInvite_findUnique := (\<lambda>e p. Some \<lparr> expires = 100 \<rparr>) \<rparr>"


text \<open>The table of domains after \<open>acme.link\<close> was made the primary domain of \<open>acme\<close>.\<close>

definition db1 :: domain_table where
  "db1 =
     [''acme.com'' \<mapsto> \<lparr> dr_id = ''d1'', primary = False, projectId = Some ''w1'' \<rparr>,
      ''acme.link'' \<mapsto> \<lparr> dr_id = ''d2'', primary = True, projectId = Some ''w1'' \<rparr>,
      ''other.io'' \<mapsto> \<lparr> dr_id = ''d3'', primary = True, projectId = Some ''w2'' \<rparr>]"


text \<open>A request with an API key that selects no token; a request without a workspace id
  whose \<open>Authorization\<close> header is exactly \<open>Bearer \<close>; and a world without a browser
  session.\<close>

definition req_key :: request where
  "req_key = req_session\<lparr> authorization := Some ''Bearer key'' \<rparr>"

definition req_bearer :: request where
  "req_bearer = req_bare\<lparr> authorization := Some ''Bearer '' \<rparr>"

definition env_nosession :: "unit env" where
  "env_nosession = env0\<lparr> getSession := None \<rparr>"


section \<open>Facts about sequencing and about the list of checks\<close>

lemmas model_defs =
  withWorkspace_def try_body_def resolve_def idOrSlugCheck_def authenticate_def
  domain_of_def linkId_of_def idOrSlug_of_def isRestricted_def
  fetchWorkspace_def getApiKey_def apiKeyAuth_def token_session_def sessionAuth_def
  findLink_def anonymous_args_def handler_call_args_def reaches_def
  checks_def checks_before_linksCheck_def checks_before_clicksCheck_def
  checks_before_domainCheck_def checks_before_scopeCheck_def
  findScopes_def scopeCheck_def betaFeatureCheck_def linkRefetch_def domainCheck_def
  inviteCheck_def clicksCheck_def linksCheck_def planCheck_def analyticsCheck_def linkCheck_def
  andThen_def ok_def throw_def throwApi_def return_handler_def call_def set_headers_def
  get_headers_def init_state_def if_truthy_def js_or_def startsWith_def or_empty_def Let_def

lemmas world_defs =
  env0_def acme_def ada_def bot_def bot_token_def req_session_def req_token_def req_bare_def
  params_link_def params_other_def ctx_session_def ctx_token_def headers_token_def
  trace_token_def trace_session_def default_config_def POST_config_def
  cfg_clicks_def cfg_links_def cfg_anonymous_def env_over_def env_free_def st_session_def
  params_dub_def env_dub_def st_post_def req_basic_def req_empty_header_def
  env_stranger_def db1_def req_key_def req_bearer_def env_nosession_def

lemma andThen_Inl: "m s = (Inl e, s') \<Longrightarrow> andThen m f s = (Inl e, s')"
  by (simp add: andThen_def)

lemma andThen_Inr: "m s = (Inr a, s') \<Longrightarrow> andThen m f s = f a s'"
  by (simp add: andThen_def)

lemma andThen_assoc: "andThen (andThen m f) g = andThen m (\<lambda>x. andThen (f x) g)"
  by (rule ext) (simp add: andThen_def split: prod.splits sum.splits)

lemma andThen_ok: "andThen m ok = m"
  by (rule ext) (simp add: andThen_def ok_def split: prod.splits sum.splits)

lemma run_checks_append: "run_checks (fs @ gs) c = andThen (run_checks fs c) (run_checks gs)"
proof (induction fs arbitrary: c)
  case Nil
  show ?case by (rule ext) (simp add: andThen_def ok_def)
next
  case (Cons f fs)
  have "run_checks (fs @ gs) = (\<lambda>x. andThen (run_checks fs x) (run_checks gs))"
    by (rule ext) (rule Cons.IH)
  then show ?case by (simp add: andThen_assoc)
qed

lemma run_checks_Nil: "run_checks [] = ok"
  by (rule ext) simp

lemma run_checks_single: "run_checks [f] = f"
  by (rule ext) (simp add: run_checks_Nil andThen_ok)

lemma run_checks_snoc: "run_checks (pre @ [f]) = (\<lambda>c. andThen (run_checks pre c) f)"
  by (rule ext) (simp only: run_checks_append run_checks_single)

lemma try_body_split:
  assumes "checks env cfg req = pre @ rest"
  shows "try_body env cfg req params init_state =
         (case reaches env cfg req params pre of
            (Inl e, s) \<Rightarrow> (Inl e, s)
          | (Inr c, s) \<Rightarrow>
              andThen (run_checks rest c)
                (\<lambda>c. andThen get_headers (\<lambda>h. ok (handler_call_args req params h c))) s)"
proof -
  have "try_body env cfg req params =
        andThen (andThen (resolve env cfg req params) (run_checks pre))
          (\<lambda>c. andThen (run_checks rest c)
             (\<lambda>c. andThen get_headers (\<lambda>h. ok (handler_call_args req params h c))))"
    by (simp add: try_body_def assms run_checks_append andThen_assoc)
  then show ?thesis by (simp add: andThen_def reaches_def)
qed

lemma reaches_snoc:
  "reaches env cfg req params (pre @ [f]) =
     (case reaches env cfg req params pre of (Inl e, s) \<Rightarrow> (Inl e, s) | (Inr c, s) \<Rightarrow> f c s)"
proof -
  have "andThen (resolve env cfg req params) (run_checks (pre @ [f])) =
        andThen (andThen (resolve env cfg req params) (run_checks pre)) f"
    by (simp add: run_checks_snoc andThen_assoc)
  then show ?thesis by (simp add: reaches_def andThen_def)
qed

text \<open>A check that throws in front of the rest of the checks decides the response.\<close>

lemma check_throws:
  assumes "checks env cfg req = pre @ f # rest"
    and "reaches env cfg req params pre = (Inr c, st)"
    and "f c st = (Inl (Throw e), st')"
  shows "withWorkspace env cfg req params = (Reject e (headers st'), trace st')"
  by (simp add: withWorkspace_def try_body_split [OF assms(1)] assms(2) assms(3) andThen_def)

lemma checks_at_scopeCheck:
  "checks env cfg req =
     checks_before_scopeCheck env @ scopeCheck env cfg
       # [betaFeatureCheck env cfg, linkRefetch env, domainCheck env cfg, inviteCheck env,
          clicksCheck env cfg, linksCheck env cfg, planCheck cfg, analyticsCheck req,
          linkCheck cfg]"
  by (simp add: checks_def checks_before_linksCheck_def checks_before_clicksCheck_def
      checks_before_domainCheck_def)

lemma checks_at_domainCheck:
  "checks env cfg req =
     checks_before_domainCheck env cfg @ domainCheck env cfg
       # [inviteCheck env, clicksCheck env cfg, linksCheck env cfg, planCheck cfg,
          analyticsCheck req, linkCheck cfg]"
  by (simp add: checks_def checks_before_linksCheck_def checks_before_clicksCheck_def)

lemma checks_at_clicksCheck:
  "checks env cfg req =
     checks_before_clicksCheck env cfg @ clicksCheck env cfg
       # [linksCheck env cfg, planCheck cfg, analyticsCheck req, linkCheck cfg]"
  by (simp add: checks_def checks_before_linksCheck_def)

lemma checks_at_linksCheck:
  "checks env cfg req =
     checks_before_linksCheck env cfg @ linksCheck env cfg
       # [planCheck cfg, analyticsCheck req, linkCheck cfg]"
  by (simp add: checks_def)


section \<open>The clicks usage check\<close>

text \<open>
  C4. On a route configured with \<open>needNotExceededClicks\<close>, a request that reaches the clicks
  check is rejected there, with the forbidden error whose message is
  \<open>exceededLimitError\<close> for \<open>clicks\<close>, when the usage of its workspace is strictly greater
  than the usage limit; when the usage is at most the limit (in particular equal to it)
  the request passes the check with its variables and state unchanged.
\<close>

theorem clicks_check_exact:
  assumes "needNotExceededClicks cfg"
    and "reaches env cfg req params (checks_before_clicksCheck env cfg) = (Inr c, st)"
  shows
    "(usage (workspace c) > usageLimit (workspace c) \<longrightarrow>
        withWorkspace env cfg req params =
          (Reject (ApiError \<lparr> code = forbidden,
                     message = exceededLimitError env (plan (workspace c))
                                 (usageLimit (workspace c)) ''clicks'' \<rparr>)
             (headers st), trace st))
     \<and> (usage (workspace c) \<le> usageLimit (workspace c) \<longrightarrow>
        reaches env cfg req params (checks_before_clicksCheck env cfg @ [clicksCheck env cfg])
          = (Inr c, st))"
proof (intro conjI impI)
  assume over: "usage (workspace c) > usageLimit (workspace c)"
  have "clicksCheck env cfg c st =
        (Inl (Throw (ApiError \<lparr> code = forbidden,
                     message = exceededLimitError env (plan (workspace c))
                                 (usageLimit (workspace c)) ''clicks'' \<rparr>)), st)"
    using assms(1) over by (simp add: clicksCheck_def throwApi_def throw_def)
  from check_throws [OF checks_at_clicksCheck assms(2) this]
  show "withWorkspace env cfg req params =
          (Reject (ApiError \<lparr> code = forbidden,
                     message = exceededLimitError env (plan (workspace c))
                                 (usageLimit (workspace c)) ''clicks'' \<rparr>)
             (headers st), trace st)" .
next
  assume "usage (workspace c) \<le> usageLimit (workspace c)"
  then have "clicksCheck env cfg c st = (Inr c, st)"
    by (simp add: clicksCheck_def ok_def)
  then show "reaches env cfg req params (checks_before_clicksCheck env cfg @ [clicksCheck env cfg])
          = (Inr c, st)"
    by (simp add: reaches_snoc assms(2))
qed

theorem clicks_check_exact_witness:
  "needNotExceededClicks cfg_clicks
   \<and> reaches env0 cfg_clicks req_session params_link (checks_before_clicksCheck env0 cfg_clicks)
       = (Inr ctx_session, st_session)
   \<and> usage (workspace ctx_session) = usageLimit (workspace ctx_session)
   \<and> reaches env0 cfg_clicks req_session params_link
         (checks_before_clicksCheck env0 cfg_clicks @ [clicksCheck env0 cfg_clicks])
       = (Inr ctx_session, st_session)
   \<and> reaches env_over cfg_clicks req_session params_link
         (checks_before_clicksCheck env_over cfg_clicks)
       = (Inr (ctx_session\<lparr> workspace := (acme ''u1'')\<lparr> usage := 11 \<rparr> \<rparr>), st_session)
   \<and> withWorkspace env_over cfg_clicks req_session params_link
       = (Reject (ApiError \<lparr> code = forbidden, message = ''Exceeded clicks'' \<rparr>) [],
          trace st_session)"
proof -
  have n: "needNotExceededClicks cfg_clicks"
    by (simp add: cfg_clicks_def)
  have at: "reaches env0 cfg_clicks req_session params_link
              (checks_before_clicksCheck env0 cfg_clicks) = (Inr ctx_session, st_session)"
    by (simp add: model_defs world_defs)
  have at_over: "reaches env_over cfg_clicks req_session params_link
         (checks_before_clicksCheck env_over cfg_clicks)
       = (Inr (ctx_session\<lparr> workspace := (acme ''u1'')\<lparr> usage := 11 \<rparr> \<rparr>), st_session)"
    by (simp add: model_defs world_defs)
  have eq: "usage (workspace ctx_session) = usageLimit (workspace ctx_session)"
    by (simp add: ctx_session_def acme_def)
  from clicks_check_exact [OF n at] clicks_check_exact [OF n at_over] n at at_over eq
  show ?thesis
    by (simp add: ctx_session_def acme_def env_over_def env0_def st_session_def)
qed

section \<open>Rules for assertions\<close>

lemma holdsI:
  assumes "\<And>s x s'. P s \<Longrightarrow> m s = (Inl x, s') \<Longrightarrow> E x s'"
    and "\<And>s a s'. P s \<Longrightarrow> m s = (Inr a, s') \<Longrightarrow> Q a s'"
  shows "holds P m E Q"
  using assms by (auto simp: holds_def split: prod.splits sum.splits)

lemma holds_Inr: "holds P m E Q \<Longrightarrow> P s \<Longrightarrow> m s = (Inr a, s') \<Longrightarrow> Q a s'"
  by (auto simp: holds_def split: prod.splits sum.splits)

lemma holds_Inl: "holds P m E Q \<Longrightarrow> P s \<Longrightarrow> m s = (Inl x, s') \<Longrightarrow> E x s'"
  by (auto simp: holds_def split: prod.splits sum.splits)

lemma holds_andThen:
  assumes "holds P m E R" and "\<And>a. holds (R a) (f a) E Q"
  shows "holds P (andThen m f) E Q"
proof (rule holdsI)
  fix s x s'
  assume "P s" and ex: "andThen m f s = (Inl x, s')"
  show "E x s'"
  proof (cases "m s")
    case (Pair r s1)
    show ?thesis
    proof (cases r)
      case (Inl y)
      with Pair ex have "m s = (Inl x, s')" by (simp add: andThen_def)
      from holds_Inl [OF assms(1) \<open>P s\<close> this] show ?thesis .
    next
      case (Inr a)
      with Pair ex have "f a s1 = (Inl x, s')" by (simp add: andThen_def)
      moreover from Pair Inr have "R a s1"
        using holds_Inr [OF assms(1) \<open>P s\<close>] by simp
      ultimately show ?thesis using holds_Inl [OF assms(2)] by blast
    qed
  qed
next
  fix s a s'
  assume "P s" and ex: "andThen m f s = (Inr a, s')"
  show "Q a s'"
  proof (cases "m s")
    case (Pair r s1)
    show ?thesis
    proof (cases r)
      case (Inl y)
      with Pair ex show ?thesis by (simp add: andThen_def)
    next
      case (Inr b)
      with Pair ex have "f b s1 = (Inr a, s')" by (simp add: andThen_def)
      moreover from Pair Inr have "R b s1"
        using holds_Inr [OF assms(1) \<open>P s\<close>] by simp
      ultimately show ?thesis using holds_Inr [OF assms(2)] by blast
    qed
  qed
qed

lemma holds_run_checks:
  assumes "\<And>f c. f \<in> set fs \<Longrightarrow> holds (I c) (f c) E I"
  shows "holds (I c) (run_checks fs c) E I"
  using assms
proof (induction fs arbitrary: c)
  case Nil
  show ?case by (simp add: holds_def ok_def)
next
  case (Cons f fs)
  have "holds (I c) (f c) E I" by (rule Cons.prems) simp
  moreover have "\<And>a. holds (I a) (run_checks fs a) E I"
    by (rule Cons.IH) (simp add: Cons.prems)
  ultimately show ?case by (simp add: holds_andThen)
qed

lemma holds_any: "holds P m (\<lambda>x s. True) (\<lambda>a s. True)"
  by (simp add: holds_def split: prod.splits sum.splits)

lemma holds_weaken:
  assumes "holds P m E Q" and "\<And>s. P' s \<Longrightarrow> P s" and "\<And>x s. E x s \<Longrightarrow> E' x s"
    and "\<And>a s. Q a s \<Longrightarrow> Q' a s"
  shows "holds P' m E' Q'"
  using assms unfolding holds_def
  by (auto split: prod.splits sum.splits) blast+

subsection \<open>The variables that the checks leave alone\<close>

lemmas step_defs = andThen_def ok_def throw_def throwApi_def call_def if_truthy_def Let_def

lemma findScopes_fixed: "findScopes env c s = (Inr c', s') \<Longrightarrow> fixed c' = fixed c"
  by (auto simp: findScopes_def fixed_def step_defs
      split: option.splits Token.splits list.splits)

lemma scopeCheck_same: "scopeCheck env cfg c s = (Inr c', s') \<Longrightarrow> c' = c"
  by (auto simp: scopeCheck_def step_defs split: option.splits if_splits)

lemma betaFeatureCheck_same: "betaFeatureCheck env cfg c s = (Inr c', s') \<Longrightarrow> c' = c"
  by (auto simp: betaFeatureCheck_def step_defs split: if_splits)

lemma linkRefetch_fixed: "linkRefetch env c s = (Inr c', s') \<Longrightarrow> fixed c' = fixed c"
  by (auto simp: linkRefetch_def fixed_def step_defs split: option.splits if_splits)

lemma domainCheck_same: "domainCheck env cfg c s = (Inr c', s') \<Longrightarrow> c' = c"
  by (auto simp: domainCheck_def step_defs split: option.splits if_splits)

lemma inviteCheck_same: "inviteCheck env c s = (Inr c', s') \<Longrightarrow> c' = c"
  by (auto simp: inviteCheck_def step_defs split: option.splits if_splits)

lemma clicksCheck_same: "clicksCheck env cfg c s = (Inr c', s') \<Longrightarrow> c' = c"
  by (auto simp: clicksCheck_def step_defs split: if_splits)

lemma linksCheck_same: "linksCheck env cfg c s = (Inr c', s') \<Longrightarrow> c' = c"
  by (auto simp: linksCheck_def step_defs split: if_splits)

lemma planCheck_same: "planCheck cfg c s = (Inr c', s') \<Longrightarrow> c' = c"
  by (auto simp: planCheck_def step_defs split: if_splits)

lemma analyticsCheck_same: "analyticsCheck req c s = (Inr c', s') \<Longrightarrow> c' = c"
  by (auto simp: analyticsCheck_def step_defs split: if_splits)

lemma linkCheck_same: "linkCheck cfg c s = (Inr c', s') \<Longrightarrow> c' = c"
  by (auto simp: linkCheck_def step_defs split: option.splits if_splits)

lemma set_checks:
  "set (checks env cfg req) =
     {findScopes env, scopeCheck env cfg, betaFeatureCheck env cfg, linkRefetch env,
      domainCheck env cfg, inviteCheck env, clicksCheck env cfg, linksCheck env cfg,
      planCheck cfg, analyticsCheck req, linkCheck cfg}"
  by (simp add: checks_def checks_before_linksCheck_def checks_before_clicksCheck_def
      checks_before_domainCheck_def checks_before_scopeCheck_def)

lemma check_fixed:
  assumes "f \<in> set (checks env cfg req)" and "f c s = (Inr c', s')"
  shows "fixed c' = fixed c"
  using assms unfolding set_checks
  by (auto dest: findScopes_fixed scopeCheck_same betaFeatureCheck_same linkRefetch_fixed
      domainCheck_same inviteCheck_same clicksCheck_same linksCheck_same planCheck_same
      analyticsCheck_same linkCheck_same)

lemma run_checks_fixed:
  assumes "set fs \<subseteq> set (checks env cfg req)" and "run_checks fs c s = (Inr c', s')"
  shows "fixed c' = fixed c"
proof -
  have "holds (\<lambda>s. fixed c = fixed c) (run_checks fs c) (\<lambda>x s. True) (\<lambda>c' s. fixed c' = fixed c)"
  proof (rule holds_run_checks [where I = "\<lambda>c' s. fixed c' = fixed c"])
    fix f d
    assume "f \<in> set fs"
    with assms(1) have "f \<in> set (checks env cfg req)" by blast
    then show "holds (\<lambda>s. fixed d = fixed c) (f d) (\<lambda>x s. True) (\<lambda>c' s. fixed c' = fixed c)"
      by (auto intro!: holdsI dest: check_fixed)
  qed
  from holds_Inr [OF this _ assms(2)] show ?thesis by simp
qed

subsection \<open>What the resolution establishes\<close>

lemma fetchWorkspace_post:
  "holds (\<lambda>s. True) (fetchWorkspace env a d k l ws se t w) (\<lambda>x s. True)
     (\<lambda>c s. apiKey c = a \<and> domain c = d \<and> session c = se \<and> token c = t
            \<and> users (workspace c) \<noteq> [])"
  unfolding holds_def
  by (auto simp: fetchWorkspace_def andThen_def ok_def throwApi_def throw_def call_def
      split: prod.splits sum.splits option.splits if_splits)

lemma resolve_post:
  "holds (\<lambda>s. True) (resolve env cfg req params) (\<lambda>x s. True)
     (\<lambda>c s. domain c = domain_of req params \<and> users (workspace c) \<noteq> [])"
  unfolding resolve_def Let_def
  apply (intro holds_andThen [OF holds_any])
  subgoal for k u a
    by (cases a) (auto intro: holds_weaken [OF fetchWorkspace_post])
  done

lemma reaches_post:
  assumes "set fs \<subseteq> set (checks env cfg req)"
    and "reaches env cfg req params fs = (Inr c, st)"
  shows "domain c = domain_of req params \<and> users (workspace c) \<noteq> []"
proof -
  from assms(2) obtain c0 s0 where r: "resolve env cfg req params init_state = (Inr c0, s0)"
    and rc: "run_checks fs c0 s0 = (Inr c, st)"
    by (auto simp: reaches_def andThen_def split: prod.splits sum.splits)
  from holds_Inr [OF resolve_post _ r]
  have "domain c0 = domain_of req params \<and> users (workspace c0) \<noteq> []" by simp
  moreover from run_checks_fixed [OF assms(1) rc] have "fixed c = fixed c0" .
  ultimately show ?thesis by (simp add: fixed_def)
qed

lemma find_None_slug: "(find (\<lambda>x. slug x = d) ds = None) = (d \<notin> slug ` set ds)"
  by (auto simp: find_None_iff)

lemma prefix_scopeCheck: "set (checks_before_scopeCheck env) \<subseteq> set (checks env cfg req)"
  by (auto simp: set_checks checks_before_scopeCheck_def)

lemma prefix_domainCheck: "set (checks_before_domainCheck env cfg) \<subseteq> set (checks env cfg req)"
  by (auto simp: set_checks checks_before_domainCheck_def checks_before_scopeCheck_def)

section \<open>The scope check\<close>

text \<open>
  C2. On a route whose scope checks are not skipped, a request that reaches the scope check
  carries the scopes of its restricted token (the \<open>scopes\<close> column split at spaces, the
  empty list for a \<open>null\<close> column) when it was authenticated with one, and otherwise the
  scopes that \<open>roleScopesMapping\<close> gives to the role of the caller's first membership in
  the workspace. If \<open>throwIfNoAccess\<close> throws on these scopes, the required scopes and the
  workspace id, the middleware rejects the request with what was thrown and does not
  invoke the handler; for the primary-domain endpoint (\<open>POST_config\<close>, which requires
  \<open>domains.write\<close>) the response is the error response and the table of domains is
  unchanged.
\<close>

theorem scope_check_rejects:
  assumes "\<not> skipScopeChecks cfg"
    and "reaches env cfg req params (checks_before_scopeCheck env) = (Inr c, st)"
  shows
    "scopes c =
       (case token c of
          Some (Restricted t) \<Rightarrow>
            (case rt_scopes t of None \<Rightarrow> [] | Some s \<Rightarrow> split_at CHR '' '' s)
        | _ \<Rightarrow> roleScopesMapping env (role (hd (users (workspace c)))))
     \<and> (\<forall>x. throwIfNoAccess env (scopes c) (requiredScopes cfg) (ws_id (workspace c)) = Some x \<longrightarrow>
          withWorkspace env cfg req params =
            (Reject (NoAccess x) (headers st),
             trace st @ [ThrowIfNoAccess (scopes c) (requiredScopes cfg) (ws_id (workspace c))])
          \<and> (cfg = POST_config \<longrightarrow>
               POST env parse req params db = (ErrorResponse (NoAccess x) (headers st), db)))"
proof (intro conjI allI impI)
  from assms(2) obtain c0 s0 where "findScopes env c0 s0 = (Inr c, st)"
    by (auto simp: reaches_def checks_before_scopeCheck_def run_checks_single andThen_def
        split: prod.splits sum.splits)
  then show "scopes c =
       (case token c of
          Some (Restricted t) \<Rightarrow>
            (case rt_scopes t of None \<Rightarrow> [] | Some s \<Rightarrow> split_at CHR '' '' s)
        | _ \<Rightarrow> roleScopesMapping env (role (hd (users (workspace c)))))"
    by (auto simp: findScopes_def ok_def throw_def
        split: option.splits Token.splits list.splits)
next
  fix x
  assume no: "throwIfNoAccess env (scopes c) (requiredScopes cfg) (ws_id (workspace c)) = Some x"
  have "scopeCheck env cfg c st =
          (Inl (Throw (NoAccess x)),
           st\<lparr> trace := trace st
                  @ [ThrowIfNoAccess (scopes c) (requiredScopes cfg) (ws_id (workspace c))] \<rparr>)"
    using assms(1) no by (simp add: scopeCheck_def andThen_def call_def throw_def)
  from check_throws [OF checks_at_scopeCheck assms(2) this]
  show w: "withWorkspace env cfg req params =
            (Reject (NoAccess x) (headers st),
             trace st @ [ThrowIfNoAccess (scopes c) (requiredScopes cfg) (ws_id (workspace c))])"
    by simp
  assume "cfg = POST_config"
  with w show "POST env parse req params db = (ErrorResponse (NoAccess x) (headers st), db)"
    by (simp add: POST_def)
qed

theorem scope_check_rejects_witness:
  "\<not> skipScopeChecks POST_config
   \<and> reaches env0 POST_config req_token params_link (checks_before_scopeCheck env0)
       = (Inr ctx_token, \<lparr> headers = headers_token, trace = trace_token \<rparr>)
   \<and> token ctx_token = Some (Restricted bot_token)
   \<and> scopes ctx_token = split_at CHR '' '' ''links.read links.write''
   \<and> scopes ctx_token = [''links.read'', ''links.write'']
   \<and> throwIfNoAccess env0 (scopes ctx_token) (requiredScopes POST_config)
         (ws_id (workspace ctx_token)) = Some ()
   \<and> withWorkspace env0 POST_config req_token params_link
       = (Reject (NoAccess ()) headers_token,
          trace_token @ [ThrowIfNoAccess [''links.read'', ''links.write''] [''domains.write''] ''w1''])
   \<and> POST env0 parse0 req_token params_link db0 = (ErrorResponse (NoAccess ()) headers_token, db0)
   \<and> reaches env0 POST_config req_session params_link (checks_before_scopeCheck env0)
       = (Inr ctx_session, \<lparr> headers = [], trace = trace_session \<rparr>)
   \<and> token ctx_session = None
   \<and> scopes ctx_session = roleScopesMapping env0 owner"
proof -
  have n: "\<not> skipScopeChecks POST_config"
    by (simp add: POST_config_def default_config_def)
  have at: "reaches env0 POST_config req_token params_link (checks_before_scopeCheck env0)
       = (Inr ctx_token, \<lparr> headers = headers_token, trace = trace_token \<rparr>)"
    by (simp add: model_defs world_defs)
  have at': "reaches env0 POST_config req_session params_link (checks_before_scopeCheck env0)
       = (Inr ctx_session, \<lparr> headers = [], trace = trace_session \<rparr>)"
    by (simp add: model_defs world_defs)
  have no: "throwIfNoAccess env0 (scopes ctx_token) (requiredScopes POST_config)
         (ws_id (workspace ctx_token)) = Some ()"
    by (simp add: world_defs)
  have tk: "token ctx_token = Some (Restricted bot_token)"
    by (simp add: ctx_token_def)
  have sp: "scopes ctx_token = split_at CHR '' '' ''links.read links.write''"
    using conjunct1 [OF scope_check_rejects [OF n at]] by (simp add: tk bot_token_def)
  have sc: "scopes ctx_token = [''links.read'', ''links.write'']"
    by (simp add: ctx_token_def)
  have rs: "requiredScopes POST_config = [''domains.write'']"
    by (simp add: POST_config_def default_config_def)
  have wi: "ws_id (workspace ctx_token) = ''w1''"
    by (simp add: ctx_token_def acme_def)
  have w: "withWorkspace env0 POST_config req_token params_link
       = (Reject (NoAccess ()) headers_token,
          trace_token @ [ThrowIfNoAccess [''links.read'', ''links.write''] [''domains.write''] ''w1''])"
    using conjunct2 [OF scope_check_rejects [OF n at, of parse0 db0]] no by (simp add: sc rs wi)
  have p: "POST env0 parse0 req_token params_link db0
       = (ErrorResponse (NoAccess ()) headers_token, db0)"
    using conjunct2 [OF scope_check_rejects [OF n at, of parse0 db0]] no by simp
  have tk': "token ctx_session = None"
    by (simp add: ctx_session_def)
  have sr: "scopes ctx_session = roleScopesMapping env0 owner"
    using conjunct1 [OF scope_check_rejects [OF n at']]
    by (simp add: tk') (simp add: ctx_session_def acme_def)
  show ?thesis
    by (intro conjI; fact)
qed

section \<open>The domain check\<close>

text \<open>
  C3. For a request that supplies a (non-empty) domain and reaches the domain check: a
  custom domain (not a dub domain) that is not among the slugs of the workspace's domains
  is rejected with the forbidden error \<open>Domain does not belong to workspace.\<close>; a dub
  domain on a route with \<open>domainChecks\<close> is rejected with the same error when the workspace
  is not the dub workspace, and passes the check when it is.
\<close>

theorem domain_check_rejects:
  assumes "reaches env cfg req params (checks_before_domainCheck env cfg) = (Inr c, st)"
    and "domain_of req params = Some d" and "d \<noteq> []"
  shows
    "(\<not> isDubDomain env d \<and> d \<notin> slug ` set (domains (workspace c)) \<longrightarrow>
        withWorkspace env cfg req params =
          (Reject (ApiError \<lparr> code = forbidden,
                               message = ''Domain does not belong to workspace.'' \<rparr>)
             (headers st), trace st))
     \<and> (isDubDomain env d \<and> domainChecks cfg \<and> ws_id (workspace c) \<noteq> DUB_WORKSPACE_ID env \<longrightarrow>
        withWorkspace env cfg req params =
          (Reject (ApiError \<lparr> code = forbidden,
                               message = ''Domain does not belong to workspace.'' \<rparr>)
             (headers st), trace st))
     \<and> (isDubDomain env d \<and> domainChecks cfg \<and> ws_id (workspace c) = DUB_WORKSPACE_ID env \<longrightarrow>
        reaches env cfg req params (checks_before_domainCheck env cfg @ [domainCheck env cfg])
          = (Inr c, st))"
proof -
  from reaches_post [OF prefix_domainCheck assms(1)] assms(2)
  have d: "domain c = Some d" by simp
  show ?thesis
  proof (intro conjI impI)
    assume "\<not> isDubDomain env d \<and> d \<notin> slug ` set (domains (workspace c))"
    then have "domainCheck env cfg c st =
        (Inl (Throw (ApiError \<lparr> code = forbidden,
                               message = ''Domain does not belong to workspace.'' \<rparr>)), st)"
      using d assms(3)
      by (simp add: domainCheck_def if_truthy_def throwApi_def throw_def find_None_slug)
    from check_throws [OF checks_at_domainCheck assms(1) this]
    show "withWorkspace env cfg req params =
          (Reject (ApiError \<lparr> code = forbidden,
                               message = ''Domain does not belong to workspace.'' \<rparr>)
             (headers st), trace st)" .
  next
    assume "isDubDomain env d \<and> domainChecks cfg \<and> ws_id (workspace c) \<noteq> DUB_WORKSPACE_ID env"
    then have "domainCheck env cfg c st =
        (Inl (Throw (ApiError \<lparr> code = forbidden,
                               message = ''Domain does not belong to workspace.'' \<rparr>)), st)"
      using d assms(3)
      by (simp add: domainCheck_def if_truthy_def throwApi_def throw_def)
    from check_throws [OF checks_at_domainCheck assms(1) this]
    show "withWorkspace env cfg req params =
          (Reject (ApiError \<lparr> code = forbidden,
                               message = ''Domain does not belong to workspace.'' \<rparr>)
             (headers st), trace st)" .
  next
    assume "isDubDomain env d \<and> domainChecks cfg \<and> ws_id (workspace c) = DUB_WORKSPACE_ID env"
    then have "domainCheck env cfg c st = (Inr c, st)"
      using d assms(3) by (simp add: domainCheck_def if_truthy_def ok_def)
    then show "reaches env cfg req params (checks_before_domainCheck env cfg @ [domainCheck env cfg])
          = (Inr c, st)"
      by (simp add: reaches_snoc assms(1))
  qed
qed

theorem domain_check_rejects_witness:
  "reaches env0 POST_config req_session params_other (checks_before_domainCheck env0 POST_config)
     = (Inr (ctx_session\<lparr> domain := Some ''other.io'' \<rparr>), st_post)
   \<and> domain_of req_session params_other = Some ''other.io''
   \<and> \<not> isDubDomain env0 ''other.io''
   \<and> ''other.io'' \<notin> slug ` set (domains (workspace (ctx_session\<lparr> domain := Some ''other.io'' \<rparr>)))
   \<and> withWorkspace env0 POST_config req_session params_other
       = (Reject (ApiError \<lparr> code = forbidden,
                            message = ''Domain does not belong to workspace.'' \<rparr>) [],
          trace st_post)
   \<and> reaches env0 POST_config req_session params_dub (checks_before_domainCheck env0 POST_config)
       = (Inr (ctx_session\<lparr> domain := Some ''dub.sh'' \<rparr>), st_post)
   \<and> isDubDomain env0 ''dub.sh'' \<and> domainChecks POST_config
   \<and> ws_id (workspace ctx_session) \<noteq> DUB_WORKSPACE_ID env0
   \<and> withWorkspace env0 POST_config req_session params_dub
       = (Reject (ApiError \<lparr> code = forbidden,
                            message = ''Domain does not belong to workspace.'' \<rparr>) [],
          trace st_post)
   \<and> ws_id (workspace ctx_session) = DUB_WORKSPACE_ID env_dub
   \<and> reaches env_dub POST_config req_session params_dub
        (checks_before_domainCheck env_dub POST_config @ [domainCheck env_dub POST_config])
       = (Inr (ctx_session\<lparr> domain := Some ''dub.sh'' \<rparr>), st_post)"
proof -
  have a1: "reaches env0 POST_config req_session params_other
              (checks_before_domainCheck env0 POST_config)
            = (Inr (ctx_session\<lparr> domain := Some ''other.io'' \<rparr>), st_post)"
    by (simp add: model_defs world_defs)
  have d1: "domain_of req_session params_other = Some ''other.io''"
    by (simp add: model_defs world_defs)
  have a2: "reaches env0 POST_config req_session params_dub
              (checks_before_domainCheck env0 POST_config)
            = (Inr (ctx_session\<lparr> domain := Some ''dub.sh'' \<rparr>), st_post)"
    by (simp add: model_defs world_defs)
  have d2: "domain_of req_session params_dub = Some ''dub.sh''"
    by (simp add: model_defs world_defs)
  have a3: "reaches env_dub POST_config req_session params_dub
              (checks_before_domainCheck env_dub POST_config)
            = (Inr (ctx_session\<lparr> domain := Some ''dub.sh'' \<rparr>), st_post)"
    by (simp add: model_defs world_defs)
  have n1: "\<not> isDubDomain env0 ''other.io''"
    by (simp add: env0_def)
  have n2: "''other.io'' \<notin> slug ` set (domains (workspace (ctx_session\<lparr> domain := Some ''other.io'' \<rparr>)))"
    by (simp add: ctx_session_def acme_def)
  have w1: "withWorkspace env0 POST_config req_session params_other
       = (Reject (ApiError \<lparr> code = forbidden,
                            message = ''Domain does not belong to workspace.'' \<rparr>) [],
          trace st_post)"
    using domain_check_rejects [OF a1 d1] n1 n2 by (simp add: st_post_def)
  have i1: "isDubDomain env0 ''dub.sh''"
    by (simp add: env0_def)
  have i2: "domainChecks POST_config"
    by (simp add: POST_config_def)
  have i3: "ws_id (workspace ctx_session) \<noteq> DUB_WORKSPACE_ID env0"
    by (simp add: ctx_session_def acme_def env0_def)
  have w2: "withWorkspace env0 POST_config req_session params_dub
       = (Reject (ApiError \<lparr> code = forbidden,
                            message = ''Domain does not belong to workspace.'' \<rparr>) [],
          trace st_post)"
    using domain_check_rejects [OF a2 d2] i1 i2 i3 by (simp add: st_post_def)
  have i4: "ws_id (workspace ctx_session) = DUB_WORKSPACE_ID env_dub"
    by (simp add: ctx_session_def acme_def env0_def env_dub_def)
  have i5: "isDubDomain env_dub ''dub.sh''"
    by (simp add: env0_def env_dub_def)
  have w3: "reaches env_dub POST_config req_session params_dub
        (checks_before_domainCheck env_dub POST_config @ [domainCheck env_dub POST_config])
       = (Inr (ctx_session\<lparr> domain := Some ''dub.sh'' \<rparr>), st_post)"
    using domain_check_rejects [OF a3 d2] i5 i2 i4 by simp
  show ?thesis
    by (intro conjI; fact)
qed

lemma prefix_linksCheck: "set (checks_before_linksCheck env cfg) \<subseteq> set (checks env cfg req)"
  by (auto simp: set_checks checks_before_linksCheck_def checks_before_clicksCheck_def
      checks_before_domainCheck_def checks_before_scopeCheck_def)

section \<open>The links usage check\<close>

text \<open>
  C5, as amended. On a route configured with \<open>needNotExceededLinks\<close>, a request that reaches
  the links check with a links usage strictly greater than the links limit is rejected
  there, with the forbidden error whose message is \<open>exceededLimitError\<close> for \<open>links\<close>, when
  the plan of the workspace is \<open>free\<close> or \<open>pro\<close>; on every other plan it passes the check.
\<close>

theorem links_check_free_pro:
  assumes "needNotExceededLinks cfg"
    and "reaches env cfg req params (checks_before_linksCheck env cfg) = (Inr c, st)"
    and "linksUsage (workspace c) > linksLimit (workspace c)"
  shows
    "(plan (workspace c) = ''free'' \<or> plan (workspace c) = ''pro'' \<longrightarrow>
        withWorkspace env cfg req params =
          (Reject (ApiError \<lparr> code = forbidden,
                     message = exceededLimitError env (plan (workspace c))
                                 (linksLimit (workspace c)) ''links'' \<rparr>)
             (headers st), trace st))
     \<and> (plan (workspace c) \<noteq> ''free'' \<and> plan (workspace c) \<noteq> ''pro'' \<longrightarrow>
        reaches env cfg req params (checks_before_linksCheck env cfg @ [linksCheck env cfg])
          = (Inr c, st))"
proof (intro conjI impI)
  assume "plan (workspace c) = ''free'' \<or> plan (workspace c) = ''pro''"
  then have "linksCheck env cfg c st =
        (Inl (Throw (ApiError \<lparr> code = forbidden,
                     message = exceededLimitError env (plan (workspace c))
                                 (linksLimit (workspace c)) ''links'' \<rparr>)), st)"
    using assms(1) assms(3) by (auto simp: linksCheck_def throwApi_def throw_def)
  from check_throws [OF checks_at_linksCheck assms(2) this]
  show "withWorkspace env cfg req params =
          (Reject (ApiError \<lparr> code = forbidden,
                     message = exceededLimitError env (plan (workspace c))
                                 (linksLimit (workspace c)) ''links'' \<rparr>)
             (headers st), trace st)" .
next
  assume "plan (workspace c) \<noteq> ''free'' \<and> plan (workspace c) \<noteq> ''pro''"
  then have "linksCheck env cfg c st = (Inr c, st)"
    by (simp add: linksCheck_def ok_def)
  then show "reaches env cfg req params (checks_before_linksCheck env cfg @ [linksCheck env cfg])
          = (Inr c, st)"
    by (simp add: reaches_snoc assms(2))
qed

theorem links_check_free_pro_witness:
  "needNotExceededLinks cfg_links
   \<and> reaches env_free cfg_links req_session params_link (checks_before_linksCheck env_free cfg_links)
       = (Inr (ctx_session\<lparr> workspace := (acme ''u1'')\<lparr> plan := ''free'' \<rparr> \<rparr>), st_session)
   \<and> linksLimit ((acme ''u1'')\<lparr> plan := ''free'' \<rparr>) < linksUsage ((acme ''u1'')\<lparr> plan := ''free'' \<rparr>)
   \<and> withWorkspace env_free cfg_links req_session params_link
       = (Reject (ApiError \<lparr> code = forbidden, message = ''Exceeded links'' \<rparr>) [],
          trace st_session)
   \<and> reaches env0 cfg_links req_session params_link (checks_before_linksCheck env0 cfg_links)
       = (Inr ctx_session, st_session)
   \<and> plan (workspace ctx_session) = ''business''
   \<and> reaches env0 cfg_links req_session params_link
        (checks_before_linksCheck env0 cfg_links @ [linksCheck env0 cfg_links])
       = (Inr ctx_session, st_session)"
proof -
  have n: "needNotExceededLinks cfg_links"
    by (simp add: cfg_links_def)
  have a1: "reaches env_free cfg_links req_session params_link
              (checks_before_linksCheck env_free cfg_links)
       = (Inr (ctx_session\<lparr> workspace := (acme ''u1'')\<lparr> plan := ''free'' \<rparr> \<rparr>), st_session)"
    by (simp add: model_defs world_defs)
  have o1: "linksLimit ((acme ''u1'')\<lparr> plan := ''free'' \<rparr>)
              < linksUsage ((acme ''u1'')\<lparr> plan := ''free'' \<rparr>)"
    by (simp add: acme_def)
  have w1: "withWorkspace env_free cfg_links req_session params_link
       = (Reject (ApiError \<lparr> code = forbidden, message = ''Exceeded links'' \<rparr>) [],
          trace st_session)"
    using links_check_free_pro [OF n a1] o1
    by (simp add: st_session_def env_free_def env0_def acme_def)
  have a2: "reaches env0 cfg_links req_session params_link (checks_before_linksCheck env0 cfg_links)
       = (Inr ctx_session, st_session)"
    by (simp add: model_defs world_defs)
  have b2: "plan (workspace ctx_session) = ''business''"
    by (simp add: ctx_session_def acme_def)
  have o2: "linksLimit (workspace ctx_session) < linksUsage (workspace ctx_session)"
    by (simp add: ctx_session_def acme_def)
  have w2: "reaches env0 cfg_links req_session params_link
        (checks_before_linksCheck env0 cfg_links @ [linksCheck env0 cfg_links])
       = (Inr ctx_session, st_session)"
    using links_check_free_pro [OF n a2 o2] by (simp add: b2)
  show ?thesis
    by (intro conjI; fact)
qed

text \<open>
  C5 as stated (rejected regardless of the plan) fails: the workspace \<open>acme\<close> is on the
  \<open>business\<close> plan with 30 links used of 25, and the handler is invoked.
\<close>

theorem links_check_any_plan_counterexample:
  "needNotExceededLinks cfg_links
   \<and> reaches env0 cfg_links req_session params_link (checks_before_linksCheck env0 cfg_links)
       = (Inr ctx_session, st_session)
   \<and> linksLimit (workspace ctx_session) < linksUsage (workspace ctx_session)
   \<and> plan (workspace ctx_session) = ''business''
   \<and> withWorkspace env0 cfg_links req_session params_link
       = (Invoke (handler_call_args req_session params_link [] ctx_session), trace st_session)"
  by (simp add: model_defs world_defs)

section \<open>The \<open>Authorization\<close> header\<close>

text \<open>
  C6, as amended. A request whose \<open>Authorization\<close> header is present, not empty and without
  the substring \<open>Bearer \<close> gets the \<open>bad_request\<close> error response, with no header set and
  no call made: no token, session or workspace is looked up, no check runs and the
  handler is not invoked.
\<close>

theorem misconfigured_authorization_rejected:
  assumes "authorization req = Some h" and "h \<noteq> []" and "\<not> includes_str h ''Bearer ''"
  shows "withWorkspace env cfg req params =
           (Reject (ApiError \<lparr> code = bad_request,
              message = ''Misconfigured authorization header. Did you forget to add 'Bearer '? Learn more: https://d.to/auth'' \<rparr>)
              [], [])"
  using assms
  by (simp add: withWorkspace_def try_body_def resolve_def getApiKey_def andThen_def
      throwApi_def throw_def init_state_def)

theorem misconfigured_authorization_rejected_witness:
  "authorization req_basic = Some ''Basic YWRhOnNlY3JldA==''
   \<and> \<not> includes_str ''Basic YWRhOnNlY3JldA=='' ''Bearer ''
   \<and> withWorkspace env0 POST_config req_basic params_link =
           (Reject (ApiError \<lparr> code = bad_request,
              message = ''Misconfigured authorization header. Did you forget to add 'Bearer '? Learn more: https://d.to/auth'' \<rparr>)
              [], [])"
proof -
  have a: "authorization req_basic = Some ''Basic YWRhOnNlY3JldA==''"
    by (simp add: req_basic_def req_session_def)
  have b: "''Basic YWRhOnNlY3JldA=='' \<noteq> []" by simp
  have c: "\<not> includes_str ''Basic YWRhOnNlY3JldA=='' ''Bearer ''"
    by (simp add: startsWith_def)
  from misconfigured_authorization_rejected [OF a b c, of env0 POST_config params_link] a c
  show ?thesis by simp
qed

text \<open>
  C6 as stated fails for a header that is present and empty: the test
  \<open>if (authorizationHeader)\<close> is false for the empty string, the request goes on with the
  browser session and the handler is invoked.
\<close>

theorem empty_authorization_counterexample:
  "authorization req_empty_header = Some []
   \<and> \<not> includes_str [] ''Bearer ''
   \<and> withWorkspace env0 default_config req_empty_header params_link =
       (Invoke (handler_call_args req_empty_header params_link [] ctx_session), trace st_session)"
  by (simp add: model_defs world_defs)

section \<open>The two updates of the endpoint\<close>

lemma prisma_domain_update_None [simp]:
  "db d = None \<Longrightarrow> prisma_domain_update (Some d) db = (Inl PrismaRecordNotFound, db)"
  by (simp add: prisma_domain_update_def)

lemma prisma_domain_update_Some [simp]:
  "db d = Some r \<Longrightarrow>
   prisma_domain_update (Some d) db
     = (Inr (d, r\<lparr> primary := True \<rparr>), db(d \<mapsto> r\<lparr> primary := True \<rparr>))"
  by (simp add: prisma_domain_update_def)

text \<open>The two updates of the \<open>Promise.all\<close> touch different rows: the order in which the
  database runs them makes no difference.\<close>

lemma primary_updates_commute:
  "primary_updates wid d db =
     (case prisma_domain_update d (prisma_domain_updateMany wid d db) of (r, db') \<Rightarrow> (r, db'))"
proof (cases d)
  case None
  then show ?thesis
    by (simp add: primary_updates_def prisma_domain_update_def)
next
  case (Some s)
  show ?thesis
  proof (cases "db s")
    case None
    then have "prisma_domain_updateMany wid d db s = None"
      by (simp add: prisma_domain_updateMany_def)
    with None Some show ?thesis
      by (simp add: primary_updates_def)
  next
    case (Some r)
    then have m: "prisma_domain_updateMany wid d db s = Some r"
      using \<open>d = Some s\<close> by (simp add: prisma_domain_updateMany_def)
    have "prisma_domain_updateMany wid d (db(s \<mapsto> r\<lparr> primary := True \<rparr>))
          = (prisma_domain_updateMany wid d db)(s \<mapsto> r\<lparr> primary := True \<rparr>)"
      using \<open>d = Some s\<close> by (auto simp: prisma_domain_updateMany_def fun_eq_iff)
    with Some m \<open>d = Some s\<close> show ?thesis
      by (simp add: primary_updates_def)
  qed
qed

lemma updateMany_idem:
  "prisma_domain_updateMany wid d (prisma_domain_updateMany wid d db)
     = prisma_domain_updateMany wid d db"
  by (auto simp: prisma_domain_updateMany_def fun_eq_iff split: option.splits)

lemma primary_updates_twice:
  "primary_updates wid d (snd (primary_updates wid d db :: ('x thrown + string \<times> DomainRow) \<times> domain_table))
     = (primary_updates wid d db :: ('x thrown + string \<times> DomainRow) \<times> domain_table)"
proof (cases d)
  case None
  then show ?thesis
    by (simp add: primary_updates_def prisma_domain_update_def updateMany_idem)
next
  case (Some s)
  show ?thesis
  proof (cases "db s")
    case None
    then have "prisma_domain_updateMany wid d db s = None"
      by (simp add: prisma_domain_updateMany_def)
    with None Some show ?thesis
      by (simp add: primary_updates_def updateMany_idem)
  next
    case (Some r)
    let ?r = "r\<lparr> primary := True \<rparr>"
    let ?db1 = "prisma_domain_updateMany wid d (db(s \<mapsto> ?r))"
    have one: "primary_updates wid d db = (Inr (s, ?r) :: 'x thrown + string \<times> DomainRow, ?db1)"
      using Some \<open>d = Some s\<close> by (simp add: primary_updates_def)
    have at: "?db1 s = Some ?r"
      using \<open>d = Some s\<close> by (simp add: prisma_domain_updateMany_def)
    have "?db1(s \<mapsto> ?r) = ?db1"
      using at by (auto simp: fun_eq_iff)
    then have "primary_updates wid d ?db1 = (Inr (s, ?r) :: 'x thrown + string \<times> DomainRow, ?db1)"
      using at \<open>d = Some s\<close> by (simp add: primary_updates_def updateMany_idem)
    with one show ?thesis by simp
  qed
qed

text \<open>
  C9. For every table of domains, workspace id and domain, running the pair of updates of
  the endpoint a second time gives the same result and the same table as running it
  once: the update sets the flag of the named domain and clears the flag of the other
  primary domains of the workspace, it toggles nothing.
\<close>

theorem primary_updates_idempotent:
  "primary_updates wid (Some d)
     (snd (primary_updates wid (Some d) db :: ('x thrown + string \<times> DomainRow) \<times> domain_table))
   = (primary_updates wid (Some d) db :: ('x thrown + string \<times> DomainRow) \<times> domain_table)"
  by (rule primary_updates_twice)

section \<open>The exits of the middleware and the variables of a resolved request\<close>

subsection \<open>Authentication and resolution\<close>

lemma getApiKey_exit:
  "holds no_invite_query (getApiKey req) (good_exit req params)
     (\<lambda>a s. no_invite_query s \<and> a = apiKey_of req)"
  unfolding holds_def
  by (auto simp: getApiKey_def apiKey_of_def good_exit_def no_invite_error_def no_invite_query_def step_defs
      split: option.splits)

lemma idOrSlugCheck_exit:
  "holds no_invite_query (idOrSlugCheck cfg req params a i r) (good_exit req params)
     (\<lambda>u s. no_invite_query s)"
  unfolding holds_def
  by (auto simp: idOrSlugCheck_def good_exit_def no_invite_error_def no_invite_query_def step_defs
      get_headers_def return_handler_def)

lemma sessionAuth_exit:
  "holds no_invite_query (sessionAuth env) (good_exit req params)
     (\<lambda>se s. no_invite_query s
        \<and> getSession env = Some \<lparr> raw_user = Some (user se) \<rparr> \<and> user_id (user se) \<noteq> [])"
  unfolding holds_def
  by (auto simp: sessionAuth_def good_exit_def no_invite_error_def no_invite_query_def step_defs
      split: option.splits)

lemma apiKeyAuth_exit:
  "holds no_invite_query (apiKeyAuth env k (startsWith k ''dub_'') w) (good_exit req params)
     (\<lambda>(se, t, w') s. no_invite_query s \<and> t = token_of_key env k
        \<and> (\<exists>row u. t = Some row \<and> token_user row = Some u \<and> se = token_session u))"
  unfolding holds_def
  by (auto simp: apiKeyAuth_def token_of_key_def good_exit_def no_invite_error_def no_invite_query_def step_defs
      set_headers_def split: option.splits)

lemma authenticate_exit:
  "holds no_invite_query (authenticate env a (isRestricted a) w) (good_exit req params)
     (\<lambda>(se, t, w') s. no_invite_query s \<and> authenticated env a se t)"
proof (cases "truthy a")
  case True
  then obtain k where k: "a = Some k" "k \<noteq> []"
    by (cases a) auto
  have "authenticate env a (isRestricted a) w = apiKeyAuth env k (startsWith k ''dub_'') w"
    by (simp add: authenticate_def if_truthy_def isRestricted_def k)
  moreover have "holds no_invite_query (apiKeyAuth env k (startsWith k ''dub_'') w)
      (good_exit req params)
      (\<lambda>(se, t, w') s. no_invite_query s \<and> authenticated env a se t)"
    by (rule holds_weaken [OF apiKeyAuth_exit [of env k w req params]])
       (auto simp: if_truthy_def authenticated_def k)
  ultimately show ?thesis by simp
next
  case False
  then have f: "if_truthy a f g = g" for f :: "string \<Rightarrow> 'b" and g
    by (cases a) (auto simp: if_truthy_def)
  have "holds no_invite_query (andThen (sessionAuth env) (\<lambda>s. ok (s, None, w)))
          (good_exit req params)
          (\<lambda>(se, t, w') s. no_invite_query s \<and> authenticated env a se t)"
    by (rule holds_andThen [OF sessionAuth_exit]) (simp add: holds_def ok_def authenticated_def f)
  then show ?thesis
    by (simp add: authenticate_def f)
qed

lemma holds_pure:
  assumes "A \<Longrightarrow> holds P m E Q"
  shows "holds (\<lambda>s. P s \<and> A) m E Q"
  using assms by (auto simp: holds_def)

lemma findLink_exit:
  "holds no_invite_query (findLink env l w d k) (\<lambda>x s. False) (\<lambda>r s. no_invite_query s)"
  unfolding holds_def
  by (auto simp: findLink_def no_invite_query_def step_defs split: option.splits)

lemma fetchWorkspace_exit:
  "holds no_invite_query (fetchWorkspace env a d k l ws se t w) (good_exit req params)
     (\<lambda>c s. no_invite_query s \<and> apiKey c = a \<and> domain c = d \<and> session c = se \<and> token c = t
            \<and> users (workspace c) \<noteq> [])"
  unfolding fetchWorkspace_def
proof (rule holds_andThen [where R = "\<lambda>r s. no_invite_query s"])
  show "holds no_invite_query
          (call (Project_findUnique (js_or w None) (js_or ws None) (user_id (user se)))
             (project_findUnique env (js_or w None) (js_or ws None) (user_id (user se))))
          (good_exit req params) (\<lambda>r. no_invite_query)"
    by (simp add: holds_def call_def no_invite_query_def)
next
  fix found
  show "holds no_invite_query
          (andThen (findLink env l w d k)
             (\<lambda>link. case found of
                 None \<Rightarrow> throwApi not_found ''Workspace not found.''
               | Some wsp \<Rightarrow>
                   if users wsp = [] then throwApi not_found ''Workspace not found.''
                   else ok \<lparr> apiKey = a, domain = d, key = k, linkId = l, workspaceId = w,
                             session = se, token = t, workspace = wsp, link = link,
                             scopes = [] \<rparr>))
          (good_exit req params)
          (\<lambda>c s. no_invite_query s \<and> apiKey c = a \<and> domain c = d \<and> session c = se
                 \<and> token c = t \<and> users (workspace c) \<noteq> [])"
  proof (rule holds_andThen [where R = "\<lambda>r s. no_invite_query s"])
    show "holds no_invite_query (findLink env l w d k) (good_exit req params)
            (\<lambda>r. no_invite_query)"
      by (rule holds_weaken [OF findLink_exit]) auto
  next
    fix lnk
    show "holds no_invite_query
            (case found of
               None \<Rightarrow> throwApi not_found ''Workspace not found.''
             | Some wsp \<Rightarrow>
                 if users wsp = [] then throwApi not_found ''Workspace not found.''
                 else ok \<lparr> apiKey = a, domain = d, key = k, linkId = l, workspaceId = w,
                           session = se, token = t, workspace = wsp, link = lnk,
                           scopes = [] \<rparr>)
            (good_exit req params)
            (\<lambda>c s. no_invite_query s \<and> apiKey c = a \<and> domain c = d \<and> session c = se
                   \<and> token c = t \<and> users (workspace c) \<noteq> [])"
      by (auto simp: holds_def good_exit_def no_invite_error_def step_defs split: option.splits)
  qed
qed

lemma resolve_summary:
  "holds no_invite_query (resolve env cfg req params) (good_exit req params)
     (\<lambda>c s. no_invite_query s \<and> resolved env req params c)"
  unfolding resolve_def Let_def
proof (rule holds_andThen [OF getApiKey_exit], rule holds_pure,
    rule holds_andThen [OF idOrSlugCheck_exit], rule holds_andThen [OF authenticate_exit])
  fix a :: "string option" and u :: unit and p :: "Session \<times> Token option \<times> string option"
  assume a: "a = apiKey_of req"
  obtain se t w where p: "p = (se, t, w)" by (cases p)
  have "holds (\<lambda>s. no_invite_query s \<and> authenticated env a se t)
          (fetchWorkspace env a (domain_of req params) (searchParams req ''key'')
             (linkId_of req params)
             (if_truthy (idOrSlug_of req params)
                (\<lambda>s. if startsWith s ''ws_'' then None else Some s) None)
             se t w)
          (good_exit req params)
          (\<lambda>c s. no_invite_query s \<and> resolved env req params c)"
    by (rule holds_pure, rule holds_weaken [OF fetchWorkspace_exit])
       (auto simp: resolved_def a)
  then show "holds (case p of (se, t, w') \<Rightarrow> \<lambda>s. no_invite_query s \<and> authenticated env a se t)
          (case p of
             (se, t, w) \<Rightarrow>
               fetchWorkspace env a (domain_of req params) (searchParams req ''key'')
                 (linkId_of req params)
                 (if_truthy (idOrSlug_of req params)
                    (\<lambda>s. if startsWith s ''ws_'' then None else Some s) None)
                 se t w)
          (good_exit req params)
          (\<lambda>c s. no_invite_query s \<and> resolved env req params c)"
    by (simp add: p)
qed

subsection \<open>The exits of the checks\<close>

lemmas exit_defs = holds_def good_exit_def no_invite_error_def no_invite_query_def step_defs

lemma findScopes_exit:
  "holds no_invite_query (findScopes env c) (good_exit req params) (\<lambda>c' s. no_invite_query s)"
  by (auto simp: findScopes_def exit_defs split: option.splits Token.splits list.splits)

lemma scopeCheck_exit:
  "holds no_invite_query (scopeCheck env cfg c) (good_exit req params)
     (\<lambda>c' s. no_invite_query s)"
  by (auto simp: scopeCheck_def exit_defs split: option.splits)

lemma betaFeatureCheck_exit:
  "holds no_invite_query (betaFeatureCheck env cfg c) (good_exit req params)
     (\<lambda>c' s. no_invite_query s)"
  by (auto simp: betaFeatureCheck_def exit_defs)

lemma linkRefetch_exit:
  "holds no_invite_query (linkRefetch env c) (good_exit req params) (\<lambda>c' s. no_invite_query s)"
  by (auto simp: linkRefetch_def exit_defs split: option.splits)

lemma domainCheck_exit:
  "holds no_invite_query (domainCheck env cfg c) (good_exit req params)
     (\<lambda>c' s. no_invite_query s)"
  by (auto simp: domainCheck_def exit_defs split: option.splits)

text \<open>The invite check does nothing when the caller is among the users of the
  workspace.\<close>

lemma inviteCheck_skip: "users (workspace c) \<noteq> [] \<Longrightarrow> inviteCheck env c s = (Inr c, s)"
  by (simp add: inviteCheck_def ok_def)

lemma inviteCheck_exit:
  "users (workspace c) \<noteq> [] \<Longrightarrow>
   holds no_invite_query (inviteCheck env c) (good_exit req params) (\<lambda>c' s. no_invite_query s)"
  by (simp add: holds_def inviteCheck_skip)

lemma clicksCheck_exit:
  "holds no_invite_query (clicksCheck env cfg c) (good_exit req params)
     (\<lambda>c' s. no_invite_query s)"
  by (auto simp: clicksCheck_def exit_defs)

lemma linksCheck_exit:
  "holds no_invite_query (linksCheck env cfg c) (good_exit req params)
     (\<lambda>c' s. no_invite_query s)"
  by (auto simp: linksCheck_def exit_defs)

lemma planCheck_exit:
  "holds no_invite_query (planCheck cfg c) (good_exit req params) (\<lambda>c' s. no_invite_query s)"
  by (auto simp: planCheck_def exit_defs)

lemma analyticsCheck_exit:
  "holds no_invite_query (analyticsCheck rq c) (good_exit req params)
     (\<lambda>c' s. no_invite_query s)"
  by (auto simp: analyticsCheck_def exit_defs)

lemma linkCheck_exit:
  "holds no_invite_query (linkCheck cfg c) (good_exit req params) (\<lambda>c' s. no_invite_query s)"
  by (auto simp: linkCheck_def exit_defs split: option.splits)

lemma check_exit:
  assumes "f \<in> set (checks env cfg rq)" and "users (workspace c) \<noteq> []"
  shows "holds no_invite_query (f c) (good_exit req params) (\<lambda>c' s. no_invite_query s)"
proof -
  from assms(1) consider "f = findScopes env" | "f = scopeCheck env cfg"
    | "f = betaFeatureCheck env cfg" | "f = linkRefetch env" | "f = domainCheck env cfg"
    | "f = inviteCheck env" | "f = clicksCheck env cfg" | "f = linksCheck env cfg"
    | "f = planCheck cfg" | "f = analyticsCheck rq" | "f = linkCheck cfg"
    unfolding set_checks by blast
  then show ?thesis
    by cases
      (simp_all add: findScopes_exit scopeCheck_exit betaFeatureCheck_exit linkRefetch_exit
        domainCheck_exit inviteCheck_exit [OF assms(2)] clicksCheck_exit linksCheck_exit
        planCheck_exit analyticsCheck_exit linkCheck_exit)
qed

lemma resolved_fixed:
  assumes "fixed c' = fixed c"
  shows "resolved env req params c' = resolved env req params c"
proof -
  from assms have "apiKey c' = apiKey c" "domain c' = domain c" "session c' = session c"
    "token c' = token c" "workspace c' = workspace c"
    by (simp_all add: fixed_def)
  then show ?thesis by (simp add: resolved_def)
qed

lemma resolved_users: "resolved env req params c \<Longrightarrow> users (workspace c) \<noteq> []"
  by (simp add: resolved_def)

lemma check_summary:
  assumes "f \<in> set (checks env cfg req)"
  shows "holds (\<lambda>s. no_invite_query s \<and> resolved env req params c) (f c)
           (good_exit req params) (\<lambda>c' s. no_invite_query s \<and> resolved env req params c')"
proof (rule holdsI)
  fix s x s'
  assume p: "no_invite_query s \<and> resolved env req params c" and r: "f c s = (Inl x, s')"
  from p have u: "users (workspace c) \<noteq> []" by (blast dest: resolved_users)
  from p have q: "no_invite_query s" ..
  from holds_Inl [OF check_exit [OF assms u] q r]
  show "good_exit req params x s'" .
next
  fix s c' s'
  assume p: "no_invite_query s \<and> resolved env req params c" and r: "f c s = (Inr c', s')"
  from p have u: "users (workspace c) \<noteq> []" by (blast dest: resolved_users)
  from p have q: "no_invite_query s" ..
  from holds_Inr [OF check_exit [OF assms u, of req params] q r]
  have "no_invite_query s'" .
  moreover from p have "resolved env req params c'"
    by (simp add: resolved_fixed [OF check_fixed [OF assms r], of env req params])
  ultimately show "no_invite_query s' \<and> resolved env req params c'" ..
qed

lemma try_body_summary:
  "holds no_invite_query (try_body env cfg req params) (good_exit req params)
     (\<lambda>a s. no_invite_query s
        \<and> (\<exists>c. a = handler_call_args req params (headers s) c \<and> resolved env req params c))"
  unfolding try_body_def
proof (rule holds_andThen [OF resolve_summary], rule holds_andThen)
  fix c
  show "holds (\<lambda>s. no_invite_query s \<and> resolved env req params c)
          (run_checks (checks env cfg req) c) (good_exit req params)
          (\<lambda>c' s. no_invite_query s \<and> resolved env req params c')"
    by (rule holds_run_checks [where I = "\<lambda>c s. no_invite_query s \<and> resolved env req params c"])
       (rule check_summary)
next
  fix c c'
  show "holds (\<lambda>s. no_invite_query s \<and> resolved env req params c')
          (andThen get_headers (\<lambda>h. ok (handler_call_args req params h c')))
          (good_exit req params)
          (\<lambda>a s. no_invite_query s
             \<and> (\<exists>c. a = handler_call_args req params (headers s) c \<and> resolved env req params c))"
    by (auto simp: holds_def andThen_def get_headers_def ok_def)
qed

text \<open>Every run of the middleware: what its decision and its trace can be.\<close>

lemma withWorkspace_summary:
  assumes "withWorkspace env cfg req params = (d, tr)"
  shows "(\<forall>m w. ProjectInvite_findUnique m w \<notin> set tr)
     \<and> (case d of
          Reject e h \<Rightarrow>
            (case e of
               ApiError err \<Rightarrow> code err \<noteq> invite_pending \<and> code err \<noteq> invite_expired
             | _ \<Rightarrow> True)
        | Invoke a \<Rightarrow>
            (\<exists>h. a = anonymous_args req params h)
            \<or> (\<exists>h c. a = handler_call_args req params h c \<and> resolved env req params c))"
proof -
  have i: "no_invite_query init_state"
    by (simp add: no_invite_query_def init_state_def)
  obtain r s where b: "try_body env cfg req params init_state = (r, s)"
    by (cases "try_body env cfg req params init_state")
  show ?thesis
  proof (cases r)
    case (Inl x)
    with b have "good_exit req params x s"
      using holds_Inl [OF try_body_summary i] by simp
    with assms b Inl show ?thesis
      by (cases x)
        (auto simp: withWorkspace_def good_exit_def no_invite_query_def no_invite_error_def
          split: thrown.splits)
  next
    case (Inr a)
    with b have "no_invite_query s
        \<and> (\<exists>c. a = handler_call_args req params (headers s) c \<and> resolved env req params c)"
      using holds_Inr [OF try_body_summary i] by simp
    with assms b Inr show ?thesis
      by (auto simp: withWorkspace_def no_invite_query_def)
  qed
qed

section \<open>The pending-invite branch\<close>

lemma findLink_returns: "\<exists>r s'. findLink env l w d k s = (Inr r, s')"
  by (auto simp: findLink_def step_defs split: option.splits)

lemma fetchWorkspace_not_member:
  assumes "project_findUnique env (js_or w None) (js_or ws None) (user_id (user se)) = Some p"
    and "users p = []"
  shows "\<exists>s'. fetchWorkspace env a d k l ws se t w s =
           (Inl (Throw (ApiError \<lparr> code = not_found, message = ''Workspace not found.'' \<rparr>)), s')"
proof -
  obtain r s' where
    "findLink env l w d k
       (s\<lparr> trace := trace s
              @ [Project_findUnique (js_or w None) (js_or ws None) (user_id (user se))] \<rparr>)
     = (Inr r, s')"
    using findLink_returns by blast
  then show ?thesis
    using assms
    by (simp add: fetchWorkspace_def andThen_def call_def throwApi_def throw_def)
qed

lemma prefix_inviteCheck:
  "set (checks_before_domainCheck env cfg @ [domainCheck env cfg]) \<subseteq> set (checks env cfg req)"
  by (auto simp: set_checks checks_before_domainCheck_def checks_before_scopeCheck_def)

text \<open>
  C8. The pending-invite branch is unreachable. Whatever the request, the route options and
  the collaborators, the middleware never rejects with an \<open>invite_pending\<close> or
  \<open>invite_expired\<close> error of its own and never queries the pending invites; a request that
  reaches the invite check has a workspace whose list of users is not empty, so that the
  check does nothing; and a fetched workspace whose list of users (for the caller) is
  empty is rejected where it is fetched, with the \<open>not_found\<close> error \<open>Workspace not found.\<close>
  (An error thrown by \<open>throwIfNoAccess\<close> is that helper's, whatever its code.)
\<close>

theorem invite_branch_unreachable:
  "(fst (withWorkspace env cfg req params) = Reject (ApiError e) h \<longrightarrow>
      code e \<noteq> invite_pending \<and> code e \<noteq> invite_expired)
   \<and> ProjectInvite_findUnique m i \<notin> set (snd (withWorkspace env cfg req params))
   \<and> (reaches env cfg req params (checks_before_domainCheck env cfg @ [domainCheck env cfg])
         = (Inr c, st) \<longrightarrow>
       users (workspace c) \<noteq> [] \<and> inviteCheck env c st = (Inr c, st))
   \<and> (project_findUnique env (js_or w None) (js_or ws None) (user_id (user se)) = Some p
       \<and> users p = [] \<longrightarrow>
       fst (fetchWorkspace env a d k l ws se t w s) =
         Inl (Throw (ApiError \<lparr> code = not_found, message = ''Workspace not found.'' \<rparr>)))"
proof (intro conjI impI)
  obtain dc tr where w: "withWorkspace env cfg req params = (dc, tr)"
    by (cases "withWorkspace env cfg req params")
  note sm = withWorkspace_summary [OF w]
  from sm w show "ProjectInvite_findUnique m i \<notin> set (snd (withWorkspace env cfg req params))"
    by simp
  assume "fst (withWorkspace env cfg req params) = Reject (ApiError e) h"
  with w have "dc = Reject (ApiError e) h" by simp
  with sm show "code e \<noteq> invite_pending" and "code e \<noteq> invite_expired"
    by simp_all
next
  assume r: "reaches env cfg req params (checks_before_domainCheck env cfg @ [domainCheck env cfg])
         = (Inr c, st)"
  from reaches_post [OF prefix_inviteCheck r]
  show u: "users (workspace c) \<noteq> []" by simp
  then show "inviteCheck env c st = (Inr c, st)"
    by (rule inviteCheck_skip)
next
  assume "project_findUnique env (js_or w None) (js_or ws None) (user_id (user se)) = Some p
       \<and> users p = []"
  then obtain s' where "fetchWorkspace env a d k l ws se t w s =
           (Inl (Throw (ApiError \<lparr> code = not_found, message = ''Workspace not found.'' \<rparr>)), s')"
    using fetchWorkspace_not_member by blast
  then show "fst (fetchWorkspace env a d k l ws se t w s) =
         Inl (Throw (ApiError \<lparr> code = not_found, message = ''Workspace not found.'' \<rparr>))"
    by simp
qed

theorem invite_branch_unreachable_witness:
  "projectInvite_findUnique env_stranger ''ada@acme.com'' ''w1'' = Some \<lparr> expires = 100 \<rparr>
   \<and> now env_stranger < 100
   \<and> project_findUnique env_stranger (Some ''w1'') None ''u9'' = Some (acme ''u9'')
   \<and> users (acme ''u9'') = []
   \<and> withWorkspace env_stranger POST_config req_session params_link
       = (Reject (ApiError \<lparr> code = not_found, message = ''Workspace not found.'' \<rparr>) [],
          [GetSession, Project_findUnique (Some ''w1'') None ''u9''])
   \<and> code \<lparr> code = not_found, message = ''Workspace not found.'' \<rparr> \<noteq> invite_pending
   \<and> reaches env0 POST_config req_session params_link
        (checks_before_domainCheck env0 POST_config @ [domainCheck env0 POST_config])
       = (Inr ctx_session, st_post)
   \<and> users (workspace ctx_session) \<noteq> []
   \<and> inviteCheck env0 ctx_session st_post = (Inr ctx_session, st_post)"
proof -
  have i: "projectInvite_findUnique env_stranger ''ada@acme.com'' ''w1'' = Some \<lparr> expires = 100 \<rparr>"
    by (simp add: env_stranger_def)
  have n: "now env_stranger < 100"
    by (simp add: env_stranger_def env0_def)
  have p: "project_findUnique env_stranger (Some ''w1'') None ''u9'' = Some (acme ''u9'')"
    by (simp add: env_stranger_def env0_def)
  have u: "users (acme ''u9'') = []"
    by (simp add: acme_def)
  have w: "withWorkspace env_stranger POST_config req_session params_link
       = (Reject (ApiError \<lparr> code = not_found, message = ''Workspace not found.'' \<rparr>) [],
          [GetSession, Project_findUnique (Some ''w1'') None ''u9''])"
    by (simp add: model_defs world_defs)
  have c: "code \<lparr> code = not_found, message = ''Workspace not found.'' \<rparr> \<noteq> invite_pending"
    using invite_branch_unreachable
      [of env_stranger POST_config req_session params_link
          "\<lparr> code = not_found, message = ''Workspace not found.'' \<rparr>" "[]"] w
    by simp
  have r: "reaches env0 POST_config req_session params_link
        (checks_before_domainCheck env0 POST_config @ [domainCheck env0 POST_config])
       = (Inr ctx_session, st_post)"
    by (simp add: model_defs world_defs)
  have v: "users (workspace ctx_session) \<noteq> []"
    and k: "inviteCheck env0 ctx_session st_post = (Inr ctx_session, st_post)"
    using invite_branch_unreachable
      [of env0 POST_config req_session params_link _ _ _ _ ctx_session st_post] r
    by simp_all
  show ?thesis
    by (intro conjI; fact)
qed

section \<open>The primary-domain endpoint\<close>

lemma invoked_with_workspace:
  assumes "fst (withWorkspace env cfg req params) = Invoke a" and "arg_workspace a = Some w"
  shows "\<exists>h c. a = handler_call_args req params h c \<and> resolved env req params c"
proof -
  obtain tr where "withWorkspace env cfg req params = (Invoke a, tr)"
    using assms(1) by (cases "withWorkspace env cfg req params") simp
  from withWorkspace_summary [OF this] assms(2) show ?thesis
    by (auto simp: anonymous_args_def)
qed

text \<open>
  C1. When \<open>POST /api/domains/[domain]/primary\<close> succeeds (a JSON response), the handler was
  invoked for an authorized workspace \<open>w\<close> and the named domain \<open>d\<close>; the row of \<open>d\<close> existed
  and is afterwards the same row with \<open>primary\<close> true; every other row that was a primary
  domain of \<open>w\<close> is afterwards the same row with \<open>primary\<close> false and all remaining rows
  are unchanged; the body of the response is \<open>DomainSchema.parse\<close> of the updated record
  of \<open>d\<close>.
\<close>

theorem POST_sets_primary:
  fixes env :: "'x env" and parse :: "string \<times> DomainRow \<Rightarrow> 'b option"
  assumes "POST env parse req params db = (Json body h, db')"
  shows "\<exists>a w d r.
           fst (withWorkspace env POST_config req params) = Invoke a
           \<and> arg_workspace a = Some w
           \<and> domain_of req params = Some d
           \<and> db d = Some r
           \<and> db' d = Some (r\<lparr> primary := True \<rparr>)
           \<and> parse (d, r\<lparr> primary := True \<rparr>) = Some body
           \<and> (\<forall>s r0. s \<noteq> d \<and> db s = Some r0 \<longrightarrow>
                  db' s = Some (if projectId r0 = Some (ws_id w) \<and> primary r0
                                then r0\<lparr> primary := False \<rparr> else r0))
           \<and> (\<forall>s. db s = None \<longrightarrow> db' s = None)"
proof -
  from assms obtain a where a: "fst (withWorkspace env POST_config req params) = Invoke a"
    and hd: "handler parse a db = (Inr (body, h) :: 'x thrown + 'b \<times> headers, db')"
    by (auto simp: POST_def split: decision.splits prod.splits sum.splits)
  from hd obtain w where w: "arg_workspace a = Some w"
    by (auto simp: handler_def split: option.splits)
  from hd w obtain rec
    where pu: "primary_updates (ws_id w) (arg_domain a) db
                 = (Inr rec :: 'x thrown + string \<times> DomainRow, db')"
    and ps: "parse rec = Some body"
    by (auto simp: handler_def split: option.splits prod.splits sum.splits)
  from pu obtain d r where d: "arg_domain a = Some d" and r: "db d = Some r"
    and rec: "rec = (d, r\<lparr> primary := True \<rparr>)"
    and db': "db' = prisma_domain_updateMany (ws_id w) (Some d) (db(d \<mapsto> r\<lparr> primary := True \<rparr>))"
    by (auto simp: primary_updates_def prisma_domain_update_def
        split: option.splits prod.splits)
  from invoked_with_workspace [OF a w] d have dom: "domain_of req params = Some d"
    by (auto simp: handler_call_args_def resolved_def)
  have "db' d = Some (r\<lparr> primary := True \<rparr>)"
    by (simp add: db' prisma_domain_updateMany_def)
  moreover have "\<forall>s r0. s \<noteq> d \<and> db s = Some r0 \<longrightarrow>
      db' s = Some (if projectId r0 = Some (ws_id w) \<and> primary r0
                    then r0\<lparr> primary := False \<rparr> else r0)"
    by (auto simp: db' prisma_domain_updateMany_def)
  moreover have "\<forall>s. db s = None \<longrightarrow> db' s = None"
    using r by (auto simp: db' prisma_domain_updateMany_def)
  ultimately show ?thesis
    using a w dom r ps rec by blast
qed

lemma POST_example:
  "POST env0 parse0 req_session params_link db0 = (Json (''acme.link'', True) [], db1)"
  by (simp add: POST_def handler_def primary_updates_def prisma_domain_update_def
      prisma_domain_updateMany_def parse0_def db0_def fun_eq_iff
      model_defs world_defs)

theorem POST_sets_primary_witness:
  "POST env0 parse0 req_session params_link db0 = (Json (''acme.link'', True) [], db1)
   \<and> domain_of req_session params_link = Some ''acme.link''
   \<and> (\<exists>r. db0 ''acme.link'' = Some r \<and> db1 ''acme.link'' = Some (r\<lparr> primary := True \<rparr>))
   \<and> db1 ''acme.com'' = Some \<lparr> dr_id = ''d1'', primary = False, projectId = Some ''w1'' \<rparr>
   \<and> db1 ''other.io'' = db0 ''other.io''"
proof -
  have p: "POST env0 parse0 req_session params_link db0 = (Json (''acme.link'', True) [], db1)"
    by (rule POST_example)
  have d: "domain_of req_session params_link = Some ''acme.link''"
    by (simp add: model_defs world_defs)
  have e: "\<exists>r. db0 ''acme.link'' = Some r \<and> db1 ''acme.link'' = Some (r\<lparr> primary := True \<rparr>)"
    using POST_sets_primary [OF p] d by auto
  have c: "db1 ''acme.com'' = Some \<lparr> dr_id = ''d1'', primary = False, projectId = Some ''w1'' \<rparr>"
    by (simp add: db1_def)
  have o: "db1 ''other.io'' = db0 ''other.io''"
    by (simp add: db1_def db0_def)
  show ?thesis
    by (intro conjI; fact)
qed

section \<open>The caller's identity\<close>


lemma replace_first_absent:
  "p \<noteq> [] \<Longrightarrow> \<not> includes_str h p \<Longrightarrow> replace_first h p r = h"
  by (induction h) auto


lemma getApiKey_none:
  assumes "\<not> truthy (apiKey_of req)"
  shows "getApiKey req s = (Inr (apiKey_of req), s)"
proof (cases "authorization req")
  case None
  then show ?thesis by (simp add: getApiKey_def apiKey_of_def ok_def)
next
  case (Some h)
  show ?thesis
  proof (cases "h = []")
    case True
    with Some show ?thesis by (simp add: getApiKey_def apiKey_of_def ok_def)
  next
    case False
    with Some assms have "replace_first h ''Bearer '' [] = []"
      by (simp add: apiKey_of_def)
    with False have "includes_str h ''Bearer ''"
      using replace_first_absent [of "''Bearer ''" h "[]"] by auto
    with Some False show ?thesis by (simp add: getApiKey_def apiKey_of_def ok_def)
  qed
qed




subsection \<open>After the anonymous block, the only early exit is a throw\<close>







lemma replace_first_empty:
  assumes "includes_str h p" and "replace_first h p [] = []"
  shows "h = p"
proof (cases h)
  case Nil
  with assms(1) show ?thesis by simp
next
  case (Cons c cs)
  show ?thesis
  proof (cases "startsWith (c # cs) p")
    case True
    with assms(2) Cons have "drop (length p) (c # cs) = []" by simp
    moreover from True have "take (length p) (c # cs) = p" by (simp add: startsWith_def)
    ultimately have "c # cs = p"
      using append_take_drop_id [of "length p" "c # cs"] by simp
    with Cons show ?thesis by simp
  next
    case False
    with assms(2) Cons show ?thesis by simp
  qed
qed

lemma getApiKey_absent:
  assumes "authorization req = None \<or> authorization req = Some []
           \<or> authorization req = Some ''Bearer ''"
  shows "\<exists>a. \<not> truthy a \<and> (\<forall>s. (getApiKey req :: ('x, string option) M) s = (Inr a, s))"
  using assms by (auto simp: getApiKey_def ok_def startsWith_def)



section \<open>Anonymous requests\<close>

text \<open>
  C10. On a route configured with \<open>allowAnonymous\<close>, every request without a workspace id
  or slug (none of \<open>params.idOrSlug\<close>, \<open>searchParams.workspaceId\<close>, \<open>params.slug\<close>,
  \<open>searchParams.projectSlug\<close> is a non-empty string) and without an API key makes the
  middleware invoke the handler at once, on the object that holds \<open>req\<close>, \<open>params\<close>,
  \<open>searchParams\<close> and the empty \<open>headers\<close> and nothing else: no session, workspace,
  domain, link or scopes. No collaborator was called before: no token or session was
  looked up, no workspace fetched, no check made. A request is without an API key when
  its \<open>Authorization\<close> header is absent, empty, or exactly \<open>Bearer \<close>; these are the only
  headers after which the variable \<open>apiKey\<close> is \<open>undefined\<close> or empty.
\<close>

theorem anonymous_bypass:
  fixes env :: "'x env"
  shows
  "(allowAnonymous cfg
    \<and> \<not> truthy (params ''idOrSlug'') \<and> \<not> truthy (searchParams req ''workspaceId'')
    \<and> \<not> truthy (params ''slug'') \<and> \<not> truthy (searchParams req ''projectSlug'')
    \<and> (authorization req = None \<or> authorization req = Some []
         \<or> authorization req = Some ''Bearer '') \<longrightarrow>
      withWorkspace env cfg req params =
        (Invoke \<lparr> arg_req = req, arg_params = params, arg_searchParams = searchParams req,
                  arg_headers = [], arg_session = None, arg_workspace = None,
                  arg_domain = None, arg_link = None, arg_scopes = None \<rparr>,
         []))
   \<and> (fst ((getApiKey req :: ('x, string option) M) s) = Inr a \<and> \<not> truthy a \<longrightarrow>
        authorization req = None \<or> authorization req = Some []
        \<or> authorization req = Some ''Bearer '')"
proof (intro conjI impI)
  assume "allowAnonymous cfg
    \<and> \<not> truthy (params ''idOrSlug'') \<and> \<not> truthy (searchParams req ''workspaceId'')
    \<and> \<not> truthy (params ''slug'') \<and> \<not> truthy (searchParams req ''projectSlug'')
    \<and> (authorization req = None \<or> authorization req = Some []
         \<or> authorization req = Some ''Bearer '')"
  then have an: "allowAnonymous cfg"
    and id: "\<not> truthy (idOrSlug_of req params)"
    and hd: "authorization req = None \<or> authorization req = Some []
         \<or> authorization req = Some ''Bearer ''"
    by (simp_all add: idOrSlug_of_def js_or_def)
  from getApiKey_absent [OF hd] obtain a
    where a: "\<not> truthy a"
      and g: "\<And>s. (getApiKey req :: ('x, string option) M) s = (Inr a, s)"
    by blast
  from a have r: "\<not> isRestricted a"
    by (cases a) (auto simp: isRestricted_def startsWith_def)
  show "withWorkspace env cfg req params =
        (Invoke \<lparr> arg_req = req, arg_params = params, arg_searchParams = searchParams req,
                  arg_headers = [], arg_session = None, arg_workspace = None,
                  arg_domain = None, arg_link = None, arg_scopes = None \<rparr>,
         [])"
    using an id a r
    by (simp add: withWorkspace_def try_body_def resolve_def idOrSlugCheck_def
        andThen_def g get_headers_def return_handler_def init_state_def
        anonymous_args_def Let_def)
next
  assume "fst ((getApiKey req :: ('x, string option) M) s) = Inr a \<and> \<not> truthy a"
  then have v: "fst ((getApiKey req :: ('x, string option) M) s) = Inr a" and f: "\<not> truthy a"
    by simp_all
  show "authorization req = None \<or> authorization req = Some []
        \<or> authorization req = Some ''Bearer ''"
  proof (cases "authorization req")
    case None
    then show ?thesis by simp
  next
    case (Some h)
    show ?thesis
    proof (cases "h = []")
      case True
      with Some show ?thesis by simp
    next
      case False
      with Some v have i: "includes_str h ''Bearer ''"
        and k: "a = Some (replace_first h ''Bearer '' [])"
        by (auto simp: getApiKey_def step_defs split: if_splits)
      from k f have e: "replace_first h ''Bearer '' [] = []" by simp
      have "h = ''Bearer ''"
        using i e by (rule replace_first_empty)
      with Some show ?thesis by simp
    qed
  qed
qed

theorem anonymous_bypass_witness:
  "allowAnonymous cfg_anonymous
   \<and> authorization req_bare = None
   \<and> withWorkspace env0 cfg_anonymous req_bare Map.empty =
       (Invoke \<lparr> arg_req = req_bare, arg_params = Map.empty,
                 arg_searchParams = searchParams req_bare,
                 arg_headers = [], arg_session = None, arg_workspace = None,
                 arg_domain = None, arg_link = None, arg_scopes = None \<rparr>,
        [])
   \<and> fst (getApiKey req_bearer init_state :: (unit exit + string option) \<times> mstate)
       = Inr (Some [])
   \<and> authorization req_bearer = Some ''Bearer ''
   \<and> withWorkspace env0 cfg_anonymous req_bearer Map.empty =
       (Invoke \<lparr> arg_req = req_bearer, arg_params = Map.empty,
                 arg_searchParams = searchParams req_bearer,
                 arg_headers = [], arg_session = None, arg_workspace = None,
                 arg_domain = None, arg_link = None, arg_scopes = None \<rparr>,
        [])"
proof -
  have c: "allowAnonymous cfg_anonymous"
    by (simp add: cfg_anonymous_def)
  have a1: "authorization req_bare = None"
    by (simp add: req_bare_def)
  have n1: "\<not> truthy (Map.empty ''idOrSlug'')" "\<not> truthy (searchParams req_bare ''workspaceId'')"
    "\<not> truthy (Map.empty ''slug'')" "\<not> truthy (searchParams req_bare ''projectSlug'')"
    by (simp_all add: req_bare_def)
  have w1: "withWorkspace env0 cfg_anonymous req_bare Map.empty =
       (Invoke \<lparr> arg_req = req_bare, arg_params = Map.empty,
                 arg_searchParams = searchParams req_bare,
                 arg_headers = [], arg_session = None, arg_workspace = None,
                 arg_domain = None, arg_link = None, arg_scopes = None \<rparr>,
        [])"
    using conjunct1 [OF anonymous_bypass [of cfg_anonymous Map.empty req_bare env0]] c a1 n1
    by simp
  have g2: "fst (getApiKey req_bearer init_state :: (unit exit + string option) \<times> mstate)
       = Inr (Some [])"
    by (simp add: getApiKey_def req_bearer_def req_bare_def ok_def startsWith_def)
  have f2: "\<not> truthy (Some [])"
    by simp
  have a2: "authorization req_bearer = Some ''Bearer ''"
    using conjunct2 [OF anonymous_bypass
        [of cfg_anonymous Map.empty req_bearer env0 init_state "Some []"]] g2 f2
    by (simp add: req_bearer_def req_bare_def)
  have n2: "\<not> truthy (Map.empty ''idOrSlug'')" "\<not> truthy (searchParams req_bearer ''workspaceId'')"
    "\<not> truthy (Map.empty ''slug'')" "\<not> truthy (searchParams req_bearer ''projectSlug'')"
    by (simp_all add: req_bearer_def req_bare_def)
  have w2: "withWorkspace env0 cfg_anonymous req_bearer Map.empty =
       (Invoke \<lparr> arg_req = req_bearer, arg_params = Map.empty,
                 arg_searchParams = searchParams req_bearer,
                 arg_headers = [], arg_session = None, arg_workspace = None,
                 arg_domain = None, arg_link = None, arg_scopes = None \<rparr>,
        [])"
    using conjunct1 [OF anonymous_bypass [of cfg_anonymous Map.empty req_bearer env0]] c a2 n2
    by simp
  show ?thesis
    by (intro conjI; fact)
qed

section \<open>The session of the caller\<close>



end
